theory Spec2Isabelle
  imports Complex_Main "HOL-Library.Word"
begin

section \<open>Python values, strings and errors\<close>

text \<open>
  The request body of \<^verbatim>\<open>prepare_asset\<close> is the result of \<^verbatim>\<open>json.loads\<close>: a JSON value.
  Strings are Python 2 \<^verbatim>\<open>unicode\<close> objects; a \<open>char\<close> stands for one code point below 256.
  A JSON number with a fraction or an exponent is a float: a finite one is kept as the
  rational it denotes, which is all that truthiness and \<^verbatim>\<open>int()\<close> look at.
  A dictionary is the list of its items, with one item for a key, read by \<open>map_of\<close>.
  \<open>PDate\<close> is a \<^verbatim>\<open>datetime\<close>; it occurs in asset dictionaries only.
\<close>

datatype pyfloat = Finite rat | NaN | Infinite

record py_datetime =
  dt_fields :: "nat list"
  dt_tzinfo :: "int option"

datatype py_val =
    PNone
  | PBool bool
  | PInt int
  | PFloat pyfloat
  | PStr string
  | PList "py_val list"
  | PDict "(string \<times> py_val) list"
  | PDate py_datetime

datatype error =
    Exception string
  | ValueError
  | TypeError
  | AttributeError
  | IndexError
  | KeyError
  | OverflowError
  | OSError
  | IOError
  | NotFound

type_synonym 'a result = "error + 'a"

definition bind :: "'a result \<Rightarrow> ('a \<Rightarrow> 'b result) \<Rightarrow> 'b result" where
  "bind m f = (case m of Inl e \<Rightarrow> Inl e | Inr x \<Rightarrow> f x)"

text \<open>Truth value of an object, as \<^verbatim>\<open>not x\<close>, \<^verbatim>\<open>if x\<close> and \<^verbatim>\<open>all([...])\<close> take it.\<close>

fun truthy :: "py_val \<Rightarrow> bool" where
  "truthy PNone = False"
| "truthy (PBool b) = b"
| "truthy (PInt i) = (i \<noteq> 0)"
| "truthy (PFloat (Finite r)) = (r \<noteq> 0)"
| "truthy (PFloat NaN) = True"
| "truthy (PFloat Infinite) = True"
| "truthy (PStr s) = (s \<noteq> [])"
| "truthy (PList xs) = (xs \<noteq> [])"
| "truthy (PDict kvs) = (kvs \<noteq> [])"
| "truthy (PDate d) = True"

text \<open>\<^verbatim>\<open>unicode.strip()\<close>: the code points below 256 that Python counts as whitespace.\<close>

definition py_isspace :: "char \<Rightarrow> bool" where
  "py_isspace c = (of_char c \<in> {9, 10, 11, 12, 13, 28, 29, 30, 31, 32, 133, 160 :: nat})"

definition strip :: "string \<Rightarrow> string" where
  "strip s = rev (dropWhile py_isspace (rev (dropWhile py_isspace s)))"

text \<open>\<^verbatim>\<open>s.startswith(p)\<close>.\<close>

definition startswith :: "string \<Rightarrow> string \<Rightarrow> bool" where
  "startswith s p = (take (length p) s = p)"

text \<open>\<^verbatim>\<open>p in s\<close> for two strings: \<open>p\<close> occurs in \<open>s\<close> as a contiguous run.\<close>

fun str_contains :: "string \<Rightarrow> string \<Rightarrow> bool" where
  "str_contains p [] = (p = [])"
| "str_contains p (c # cs) = (startswith (c # cs) p \<or> str_contains p cs)"

text \<open>
  \<^verbatim>\<open>p in v\<close> where \<open>p\<close> is a string literal and \<open>v\<close> any object: substring for a string,
  membership for a list, key membership for a dict, \<^verbatim>\<open>TypeError\<close> for an object that is
  not iterable.
\<close>

fun py_in :: "string \<Rightarrow> py_val \<Rightarrow> bool result" where
  "py_in p (PStr s) = Inr (str_contains p s)"
| "py_in p (PList xs) = Inr (PStr p \<in> set xs)"
| "py_in p (PDict kvs) = Inr (p \<in> fst ` set kvs)"
| "py_in p v = Inl TypeError"

text \<open>
  \<^verbatim>\<open>int(x)\<close>. A string must hold a decimal literal, optionally signed, possibly embedded in
  whitespace; a float is truncated towards zero.
\<close>

definition is_digit :: "char \<Rightarrow> bool" where
  "is_digit c = (48 \<le> (of_char c :: nat) \<and> (of_char c :: nat) \<le> 57)"

definition digits_value :: "string \<Rightarrow> int" where
  "digits_value ds = foldl (\<lambda>acc c. 10 * acc + (int (of_char c) - 48)) 0 ds"

definition int_of_digits :: "string \<Rightarrow> int result" where
  "int_of_digits ds =
     (if ds \<noteq> [] \<and> list_all is_digit ds then Inr (digits_value ds) else Inl ValueError)"

definition int_of_string :: "string \<Rightarrow> int result" where
  "int_of_string s =
     (case strip s of
        [] \<Rightarrow> Inl ValueError
      | c # cs \<Rightarrow>
          if c = CHR ''-'' then bind (int_of_digits cs) (\<lambda>n. Inr (- n))
          else if c = CHR ''+'' then int_of_digits cs
          else int_of_digits (c # cs))"

definition trunc_towards_zero :: "rat \<Rightarrow> int" where
  "trunc_towards_zero r = (if 0 \<le> r then \<lfloor>r\<rfloor> else \<lceil>r\<rceil>)"

fun py_int :: "py_val \<Rightarrow> int result" where
  "py_int (PInt i) = Inr i"
| "py_int (PBool b) = Inr (if b then 1 else 0)"
| "py_int (PFloat (Finite r)) = Inr (trunc_towards_zero r)"
| "py_int (PFloat NaN) = Inl ValueError"
| "py_int (PFloat Infinite) = Inl OverflowError"
| "py_int (PStr s) = int_of_string s"
| "py_int v = Inl TypeError"

text \<open>\<^verbatim>\<open>x == 'N/A'\<close>: only a string can equal a string.\<close>

fun py_eq_str :: "py_val \<Rightarrow> string \<Rightarrow> bool" where
  "py_eq_str (PStr s) t = (s = t)"
| "py_eq_str v t = False"

text \<open>\<^verbatim>\<open>s.split(sep)\<close> with a one-character separator: never an empty list.\<close>

fun split :: "char \<Rightarrow> string \<Rightarrow> string list" where
  "split sep [] = [[]]"
| "split sep (c # cs) =
     (if c = sep then [] # split sep cs
      else (case split sep cs of [] \<Rightarrow> [[c]] | w # ws \<Rightarrow> (c # w) # ws))"

text \<open>\<^verbatim>\<open>xs[i]\<close> for a non-negative literal index: \<^verbatim>\<open>IndexError\<close> out of range.\<close>

definition index :: "'a list \<Rightarrow> nat \<Rightarrow> 'a result" where
  "index xs i = (if i < length xs then Inr (xs ! i) else Inl IndexError)"

text \<open>\<^verbatim>\<open>os.path.join(a, b)\<close> (posixpath): an absolute second component replaces the first.\<close>

definition path_join :: "string \<Rightarrow> string \<Rightarrow> string" where
  "path_join a b =
     (if startswith b ''/'' then b
      else if a = [] \<or> last a = CHR ''/'' then a @ b
      else a @ ''/'' @ b)"

section \<open>The file system, the catalog and the environment\<close>

text \<open>
  A resolved path names a regular file with its bytes, a directory, or nothing.
  \<^verbatim>\<open>os.path.isfile\<close>, \<^verbatim>\<open>os.remove\<close>, \<^verbatim>\<open>os.rename\<close>, \<^verbatim>\<open>FileStorage.save\<close> and
  \<^verbatim>\<open>open(path, 'a')\<close> are modelled on this map, each resolving the path it is given
  first. Permissions are not tracked; every directory a path passes through is taken to
  exist and to be no symbolic link, and a path written with a trailing "/" is read as
  the path without it.
\<close>

datatype fnode = File string | Dir

type_synonym filesystem = "string \<rightharpoonup> fnode"

text \<open>
  How the operating system resolves a path in the working directory \<open>wd\<close>: a path that
  does not begin with "/" starts from \<open>wd\<close>; empty components and "." are skipped; ".."
  steps up to the parent, and the parent of the root is the root.
\<close>

fun normalise :: "string list \<Rightarrow> string list \<Rightarrow> string list" where
  "normalise seen [] = rev seen"
| "normalise seen (c # cs) =
     (if c = [] \<or> c = ''.'' then normalise seen cs
      else if c = ''..'' then normalise (tl seen) cs
      else normalise (c # seen) cs)"

definition components :: "string \<Rightarrow> string \<Rightarrow> string list" where
  "components wd p =
     normalise [] (split CHR ''/'' (if startswith p ''/'' then p else wd @ ''/'' @ p))"

definition resolve :: "string \<Rightarrow> string \<Rightarrow> string" where
  "resolve wd p =
     (case components wd p of
        [] \<Rightarrow> ''/''
      | parts \<Rightarrow> concat (map (\<lambda>c. ''/'' @ c) parts))"


definition isfile :: "string \<Rightarrow> filesystem \<Rightarrow> string \<Rightarrow> bool" where
  "isfile wd f p = (case f (resolve wd p) of Some (File c) \<Rightarrow> True | _ \<Rightarrow> False)"


text \<open>\<^verbatim>\<open>os.rename(src, dst)\<close> of a regular file: an existing file at \<open>dst\<close> is replaced.\<close>

definition rename ::
  "string \<Rightarrow> filesystem \<Rightarrow> string \<Rightarrow> string \<Rightarrow> filesystem result" where
  "rename wd f src dst =
     (case f (resolve wd src) of
        Some (File c) \<Rightarrow>
          (case f (resolve wd dst) of
             Some Dir \<Rightarrow> Inl OSError
           | _ \<Rightarrow> Inr ((f(resolve wd src := None))(resolve wd dst \<mapsto> File c)))
      | _ \<Rightarrow> Inl OSError)"

text \<open>\<^verbatim>\<open>file_upload.save(dst)\<close>: \<open>dst\<close> is opened for writing, truncated, and holds the payload.\<close>

definition save ::
  "string \<Rightarrow> filesystem \<Rightarrow> string \<Rightarrow> string \<Rightarrow> filesystem result" where
  "save wd f dst payload =
     (case f (resolve wd dst) of
        Some Dir \<Rightarrow> Inl IOError
      | _ \<Rightarrow> Inr (f(resolve wd dst \<mapsto> File payload)))"

text \<open>
  \<^verbatim>\<open>with open(p, 'a') as f: f.seek(k); f.write(payload)\<close>. Mode \<^verbatim>\<open>'a'\<close> creates a missing
  file and opens it for appending: every write goes to the end of the file, whatever
  the seek position is (the Python 2 documentation of \<^verbatim>\<open>open\<close>: "all writes append to the
  end of the file regardless of the current seek position"; POSIX \<^verbatim>\<open>O_APPEND\<close>). The offset
  \<open>k\<close> therefore does not occur on the right-hand side.
\<close>

definition append_at ::
  "string \<Rightarrow> filesystem \<Rightarrow> string \<Rightarrow> int \<Rightarrow> string \<Rightarrow> filesystem result" where
  "append_at wd f p k payload =
     (case f (resolve wd p) of
        Some Dir \<Rightarrow> Inl IOError
      | Some (File c) \<Rightarrow> Inr (f(resolve wd p \<mapsto> File (c @ payload)))
      | None \<Rightarrow> Inr (f(resolve wd p \<mapsto> File payload)))"

text \<open>An asset is a Python dictionary; the catalog is the table of stored assets.\<close>

type_synonym asset = "string \<rightharpoonup> py_val"

text \<open>
  The state of the server and its surroundings: the file system, the catalog, the
  publisher instance of the process (none before its first use) with the messages
  handed to it, and the viewer: whether it is listening, and what it has received.
  \<open>entropy\<close> is what the random source of the operating system will give, one block of
  16 bytes (a 128-bit number) for each call of \<^verbatim>\<open>uuid.uuid4()\<close>, and \<open>draws\<close> counts the
  blocks drawn so far.
\<close>

record server_state =
  fs :: filesystem
  db :: "asset list"
  entropy :: "nat \<Rightarrow> 128 word"
  draws :: nat
  publisher :: "nat option"
  instances_made :: nat
  sent :: "(nat \<times> string) list"
  viewer_listening :: bool
  received :: "string list"

text \<open>
  What \<^verbatim>\<open>server.py\<close> imports and calls but does not define is a parameter: the
  working directory of the process; \<^verbatim>\<open>settings['assetdir']\<close>; \<^verbatim>\<open>validate_url\<close>,
  \<^verbatim>\<open>url_fails\<close>, \<^verbatim>\<open>get_video_duration\<close> (the \<^verbatim>\<open>timedelta\<close> it returns, in
  microseconds) and \<^verbatim>\<open>download_video_from_youtube\<close> of
  \<^verbatim>\<open>lib.utils\<close>; \<^verbatim>\<open>dateutil.parser.parse\<close>; \<^verbatim>\<open>mimetypes.guess_type\<close>;
  \<^verbatim>\<open>backup_helper.recover\<close>; and \<^verbatim>\<open>timedelta.total_seconds\<close>, which takes a duration
  in microseconds to a float, kept as the rational it denotes.
\<close>

record env =
  cwd :: string
  assetdir :: string
  validate_url :: "string \<Rightarrow> bool"
  url_fails :: "string \<Rightarrow> bool"
  get_video_duration :: "filesystem \<Rightarrow> string \<Rightarrow> int result"
  download_video_from_youtube :: "string \<Rightarrow> py_val \<Rightarrow> (string \<times> py_val \<times> py_val) result"
  date_parse :: "string \<Rightarrow> py_datetime result"
  guess_type :: "string \<Rightarrow> string option \<times> string option"
  backup_recover :: "string \<Rightarrow> server_state \<Rightarrow> unit result \<times> server_state"
  total_seconds :: "int \<Rightarrow> rat"

unbundle bit_operations_syntax

text \<open>
  \<^verbatim>\<open>uuid.uuid4().hex\<close>: the random number with the RFC 4122 variant and version 4 set,
  printed by \<^verbatim>\<open>'%032x'\<close>: 32 lower-case hexadecimal digits, most significant first.
\<close>

definition uuid4_int :: "128 word \<Rightarrow> 128 word" where
  "uuid4_int r =
     ((((r AND NOT (push_bit 48 0xc000)) OR push_bit 48 0x8000)
        AND NOT (push_bit 64 0xf000)) OR push_bit 76 4)"

text \<open>The six bits that \<^verbatim>\<open>uuid4\<close> overwrites; the other 122 are the random ones.\<close>

definition fixed_bits :: "128 word" where
  "fixed_bits = push_bit 48 0xc000 OR push_bit 64 0xf000"

definition hex_digit :: "nat \<Rightarrow> char" where
  "hex_digit n = ''0123456789abcdef'' ! n"

definition hex32 :: "128 word \<Rightarrow> string" where
  "hex32 w = map (\<lambda>i. hex_digit (unat (drop_bit (4 * i) w AND 15))) (rev [0..<32])"

definition uuid4_hex :: "128 word \<Rightarrow> string" where
  "uuid4_hex r = hex32 (uuid4_int r)"

definition is_hex_digit :: "char \<Rightarrow> bool" where
  "is_hex_digit c = (c \<in> set ''0123456789abcdef'')"

text \<open>\<^verbatim>\<open>uuid.uuid4().hex\<close> in a state: the next block of random bytes is drawn.\<close>

definition uuid4 :: "server_state \<Rightarrow> string \<times> server_state" where
  "uuid4 st = (uuid4_hex (entropy st (draws st)), st\<lparr>draws := Suc (draws st)\<rparr>)"

section \<open>Creating and updating assets: \<^verbatim>\<open>prepare_asset\<close>\<close>

text \<open>
  The local function \<^verbatim>\<open>get\<close> (lines 170-177): the value under \<open>key\<close>, the empty string
  when the key is missing, a string stripped of surrounding whitespace.
\<close>

definition get :: "(string \<times> py_val) list \<Rightarrow> string \<Rightarrow> py_val" where
  "get d key =
     (case map_of d key of
        None \<Rightarrow> PStr []
      | Some (PStr s) \<Rightarrow> PStr (strip s)
      | Some v \<Rightarrow> v)"

text \<open>Lines 182-189: the dictionary \<^verbatim>\<open>asset\<close> as first built.\<close>

definition initial_asset :: "(string \<times> py_val) list \<Rightarrow> asset" where
  "initial_asset d =
     [''name'' \<mapsto> get d ''name'',
      ''mimetype'' \<mapsto> get d ''mimetype'',
      ''asset_id'' \<mapsto> get d ''asset_id'',
      ''is_enabled'' \<mapsto> get d ''is_enabled'',
      ''is_processing'' \<mapsto> get d ''is_processing'',
      ''nocache'' \<mapsto> get d ''nocache'']"

text \<open>
  Lines 193-198. \<^verbatim>\<open>uri.startswith\<close> raises \<^verbatim>\<open>AttributeError\<close> on an object that is not
  a string.
\<close>

definition check_uri :: "env \<Rightarrow> filesystem \<Rightarrow> py_val \<Rightarrow> string result" where
  "check_uri e f uri =
     (case uri of
        PStr u \<Rightarrow>
          if startswith u ''/'' then
            (if \<not> isfile (cwd e) f u
             then Inl (Exception ''Invalid file path. Failed to add asset.'')
             else Inr u)
          else
            (if \<not> validate_url e u then Inl (Exception ''Invalid URL. Failed to add asset.'')
             else Inr u)
      | _ \<Rightarrow> Inl AttributeError)"

text \<open>Lines 200-204: the asset id and the uri, with the state afterwards.\<close>

definition assign_id ::
  "env \<Rightarrow> server_state \<Rightarrow> py_val \<Rightarrow> string \<Rightarrow> (py_val \<times> string) result \<times> server_state" where
  "assign_id e st asset_id u =
     (if \<not> truthy asset_id then
        (case uuid4 st of
           (new_id, st1) \<Rightarrow>
             if startswith u ''/'' then
               (case rename (cwd e) (fs st1) u (path_join (assetdir e) new_id) of
                  Inl err \<Rightarrow> (Inl err, st1)
                | Inr f' \<Rightarrow>
                    (Inr (PStr new_id, path_join (assetdir e) new_id), st1\<lparr>fs := f'\<rparr>))
             else (Inr (PStr new_id, u), st1))
      else (Inr (asset_id, u), st))"

text \<open>Lines 206-209. Reading a key a dictionary lacks raises \<^verbatim>\<open>KeyError\<close>.\<close>

definition resolve_youtube :: "env \<Rightarrow> asset \<Rightarrow> string \<Rightarrow> (asset \<times> string) result" where
  "resolve_youtube e a u =
     (case a ''mimetype'' of
        None \<Rightarrow> Inl KeyError
      | Some m \<Rightarrow>
          bind (py_in ''youtube_asset'' m) (\<lambda>is_youtube.
            if is_youtube then
              (case a ''asset_id'' of
                 None \<Rightarrow> Inl KeyError
               | Some asset_id \<Rightarrow>
                   bind (download_video_from_youtube e u asset_id) (\<lambda>(u', name', duration').
                     Inr (a(''name'' \<mapsto> name', ''duration'' \<mapsto> duration',
                            ''mimetype'' \<mapsto> PStr ''video'', ''is_processing'' \<mapsto> PInt 1), u')))
            else Inr (a, u)))"

text \<open>
  Line 215, \<^verbatim>\<open>asset['duration'] = int(get_video_duration(uri).total_seconds())\<close>: the
  probed \<^verbatim>\<open>timedelta\<close>, as a float of seconds, converted by \<^verbatim>\<open>int()\<close>.
\<close>

definition probe_duration :: "env \<Rightarrow> filesystem \<Rightarrow> string \<Rightarrow> asset \<Rightarrow> asset result" where
  "probe_duration e f u a =
     bind (get_video_duration e f u) (\<lambda>t.
       bind (py_int (PFloat (Finite (total_seconds e t)))) (\<lambda>n.
         Inr (a(''duration'' \<mapsto> PInt n))))"

text \<open>Lines 213-218.\<close>

definition resolve_duration ::
  "env \<Rightarrow> filesystem \<Rightarrow> (string \<times> py_val) list \<Rightarrow> asset \<Rightarrow> string \<Rightarrow> asset result" where
  "resolve_duration e f d a u =
     (case a ''mimetype'' of
        None \<Rightarrow> Inl KeyError
      | Some m \<Rightarrow>
          bind (py_in ''video'' m) (\<lambda>is_video.
            if is_video then
              (if py_eq_str (get d ''duration'') ''N/A'' then probe_duration e f u a
               else bind (py_int (get d ''duration'')) (\<lambda>n.
                 if n = 0 then probe_duration e f u a else Inr a))
            else bind (py_int (get d ''duration'')) (\<lambda>n. Inr (a(''duration'' \<mapsto> PInt n)))))"

text \<open>
  Lines 221-224 and 226-229: \<^verbatim>\<open>date_parser.parse(v).replace(tzinfo=None)\<close> for a true value,
  the empty string otherwise. The parser refuses an object that is not a string.
\<close>

definition parse_date :: "env \<Rightarrow> py_val \<Rightarrow> py_val result" where
  "parse_date e v =
     (if truthy v then
        (case v of
           PStr s \<Rightarrow> bind (date_parse e s) (\<lambda>dt. Inr (PDate (dt\<lparr>dt_tzinfo := None\<rparr>)))
         | _ \<Rightarrow> Inl TypeError)
      else Inr (PStr []))"

text \<open>Lines 206-231, which change no state.\<close>

definition finish_asset ::
  "env \<Rightarrow> filesystem \<Rightarrow> (string \<times> py_val) list \<Rightarrow> asset \<Rightarrow> string \<Rightarrow> asset result" where
  "finish_asset e f d a u =
     bind (resolve_youtube e a u) (\<lambda>(a1, u1).
     bind (resolve_duration e f d (a1(''uri'' \<mapsto> PStr u1)) u1) (\<lambda>a2.
     bind (parse_date e (get d ''start_date'')) (\<lambda>start_date.
     bind (parse_date e (get d ''end_date'')) (\<lambda>end_date.
     Inr (a2(''start_date'' \<mapsto> start_date, ''end_date'' \<mapsto> end_date))))))"

text \<open>Lines 200-231: what \<^verbatim>\<open>prepare_asset\<close> does with a request whose uri \<open>u\<close> it accepts.\<close>

definition prepare_accepted ::
  "env \<Rightarrow> server_state \<Rightarrow> (string \<times> py_val) list \<Rightarrow> string \<Rightarrow> asset result \<times> server_state" where
  "prepare_accepted e st d u =
     (case assign_id e st (get d ''asset_id'') u of
        (Inl err, st1) \<Rightarrow> (Inl err, st1)
      | (Inr (asset_id, u1), st1) \<Rightarrow>
          (finish_asset e (fs st1) d ((initial_asset d)(''asset_id'' \<mapsto> asset_id)) u1, st1))"

text \<open>
  \<^verbatim>\<open>prepare_asset\<close> (lines 158-231) on the parsed body \<open>data\<close>. The result goes with the
  state afterwards: an exception raised after line 203 leaves the file moved. On a body
  that is not a JSON object the first \<^verbatim>\<open>data.get\<close> raises \<^verbatim>\<open>AttributeError\<close>.
\<close>

definition prepare_asset :: "env \<Rightarrow> server_state \<Rightarrow> py_val \<Rightarrow> asset result \<times> server_state" where
  "prepare_asset e st data =
     (case data of
        PDict d \<Rightarrow>
          if \<not> (truthy (get d ''name'') \<and> truthy (get d ''uri'') \<and> truthy (get d ''mimetype''))
          then (Inl (Exception
            ''Not enough information provided. Please specify 'name', 'uri', and 'mimetype'.''), st)
          else
            (case check_uri e (fs st) (get d ''uri'') of
               Inl err \<Rightarrow> (Inl err, st)
             | Inr u \<Rightarrow> prepare_accepted e st d u)
      | _ \<Rightarrow> (Inl AttributeError, st))"

text \<open>
  Modelled from the spec: \<^verbatim>\<open>assets_helper.create\<close>, \<^verbatim>\<open>assets_helper.read\<close> and
  \<^verbatim>\<open>assets_helper.delete\<close> (\<^verbatim>\<open>lib/assets_helper.py\<close> is not among the sources). Section 4.1:
  create persists the record and returns it; get fails with NotFound if the asset is
  absent; delete removes the record.
\<close>

definition assets_helper_create :: "asset list \<Rightarrow> asset \<Rightarrow> asset \<times> asset list" where
  "assets_helper_create rows a = (a, rows @ [a])"



text \<open>
  \<^verbatim>\<open>Assets.post\<close> (lines 300-305; \<^verbatim>\<open>AssetsNewVersion.post\<close>, lines 439-444, is the same),
  under \<^verbatim>\<open>api_response\<close>: an exception becomes the error response and nothing after it
  runs.
\<close>

definition Assets_post ::
  "env \<Rightarrow> server_state \<Rightarrow> py_val \<Rightarrow> (asset \<times> nat) result \<times> server_state" where
  "Assets_post e st data =
     (case prepare_asset e st data of
        (Inl err, st1) \<Rightarrow> (Inl err, st1)
      | (Inr a, st1) \<Rightarrow>
          (case a ''uri'' of
             Some (PStr u) \<Rightarrow>
               if url_fails e u
               then (Inl (Exception ''Could not retrieve file. Check the asset URL.''), st1)
               else (case assets_helper_create (db st1) a of
                       (a', rows) \<Rightarrow> (Inr (a', 201), st1\<lparr>db := rows\<rparr>))
           | _ \<Rightarrow> (Inl KeyError, st1)))"

section \<open>Deleting an asset\<close>


section \<open>Uploading a file in chunks\<close>

record upload =
  filename :: string
  payload :: string

text \<open>
  \<^verbatim>\<open>FileAsset.post\<close> (lines 548-563). \<open>content_range\<close> is the \<^verbatim>\<open>Content-Range\<close> header when
  the request has one. \<^verbatim>\<open>req.files.get\<close> gives \<^verbatim>\<open>None\<close> for a request without the file.
  \<open>range_start\<close> is line 556, \<^verbatim>\<open>int(range_str.split(' ')[1].split('-')[0])\<close>.
\<close>

definition range_start :: "string \<Rightarrow> int result" where
  "range_start range_str =
     bind (index (split CHR '' '' range_str) 1) (\<lambda>r.
       bind (index (split CHR ''-'' r) 0) int_of_string)"

definition FileAsset_post ::
  "env \<Rightarrow> server_state \<Rightarrow> upload option \<Rightarrow> string option \<Rightarrow> string result \<times> server_state" where
  "FileAsset_post e st file_upload content_range =
     (case file_upload of
        None \<Rightarrow> (Inl AttributeError, st)
      | Some up \<Rightarrow>
          (let file_path = path_join (assetdir e) (filename up) @ ''.tmp'' in
           case content_range of
             Some range_str \<Rightarrow>
               (case range_start range_str of
                  Inl err \<Rightarrow> (Inl err, st)
                | Inr start_bytes \<Rightarrow>
                    (case append_at (cwd e) (fs st) file_path start_bytes (payload up) of
                       Inl err \<Rightarrow> (Inl err, st)
                     | Inr f1 \<Rightarrow> (Inr file_path, st\<lparr>fs := f1\<rparr>)))
           | None \<Rightarrow>
               (case save (cwd e) (fs st) file_path (payload up) of
                  Inl err \<Rightarrow> (Inl err, st)
                | Inr f1 \<Rightarrow> (Inr file_path, st\<lparr>fs := f1\<rparr>))))"

section \<open>Recovering a backup\<close>

text \<open>
  \<^verbatim>\<open>Recover.post\<close> (lines 629-640). \<^verbatim>\<open>req.files['backup_upload']\<close> raises on a request
  without the file.
\<close>

definition Recover_post ::
  "env \<Rightarrow> server_state \<Rightarrow> upload option \<Rightarrow> string result \<times> server_state" where
  "Recover_post e st file_upload =
     (case file_upload of
        None \<Rightarrow> (Inl KeyError, st)
      | Some up \<Rightarrow>
          if fst (guess_type e (filename up)) \<noteq> Some ''application/x-tar''
          then (Inl (Exception ''Incorrect file extension.''), st)
          else
            (let location = path_join ''static'' (filename up) in
             case save (cwd e) (fs st) location (payload up) of
               Inl err \<Rightarrow> (Inl err, st)
             | Inr f1 \<Rightarrow>
                 (case backup_recover e location (st\<lparr>fs := f1\<rparr>) of
                    (Inl err, st2) \<Rightarrow> (Inl err, st2)
                  | (Inr u, st2) \<Rightarrow> (Inr ''Recovery successful.'', st2))))"

section \<open>Playback control\<close>

text \<open>
  Modelled from the spec: \<^verbatim>\<open>ZmqPublisher.get_instance\<close> and \<^verbatim>\<open>send_to_viewer\<close>
  (\<^verbatim>\<open>settings.py\<close> is not among the sources). Section 4.4: accessing the publisher always
  returns the same instance for the lifetime of the process; send is fire-and-forget,
  with no acknowledgement, no delivery guarantee and no retry; if the renderer is not
  listening the message is silently lost.
\<close>

definition get_instance :: "server_state \<Rightarrow> nat \<times> server_state" where
  "get_instance st =
     (case publisher st of
        Some p \<Rightarrow> (p, st)
      | None \<Rightarrow>
          (instances_made st,
           st\<lparr>publisher := Some (instances_made st), instances_made := Suc (instances_made st)\<rparr>))"

definition send_to_viewer :: "nat \<Rightarrow> string \<Rightarrow> server_state \<Rightarrow> server_state" where
  "send_to_viewer p msg st =
     st\<lparr>sent := sent st @ [(p, msg)],
        received := (if viewer_listening st then received st @ [msg] else received st)\<rparr>"

text \<open>\<^verbatim>\<open>AssetsControl.get\<close> (lines 711-714).\<close>

definition AssetsControl_get :: "server_state \<Rightarrow> string \<Rightarrow> string result \<times> server_state" where
  "AssetsControl_get st command =
     (case get_instance st of
        (p, st1) \<Rightarrow> (Inr ''Asset switched'', send_to_viewer p command st1))"

section \<open>The active state of an asset\<close>

text \<open>
  Modelled from the spec: \<^verbatim>\<open>is_active\<close> (\<^verbatim>\<open>lib/assets_helper.py\<close> is not among the
  sources; \<^verbatim>\<open>server.py\<close> only lists the field in \<^verbatim>\<open>AssetModel\<close>). Section 3: an asset
  has a flag is_enabled and optional timestamps start_date and end_date, normalised to
  one time zone, and "is_active = is_enabled AND (no window set OR now is within
  [start_date, end_date])". Timestamps are points on one time line.
\<close>

record asset_entity =
  is_enabled :: bool
  start_date :: "int option"
  end_date :: "int option"

definition no_window :: "asset_entity \<Rightarrow> bool" where
  "no_window a = (start_date a = None \<and> end_date a = None)"

definition within_window :: "asset_entity \<Rightarrow> int \<Rightarrow> bool" where
  "within_window a now =
     (case (start_date a, end_date a) of
        (Some s, Some e) \<Rightarrow> s \<le> now \<and> now \<le> e
      | _ \<Rightarrow> False)"

definition is_active :: "asset_entity \<Rightarrow> int \<Rightarrow> bool" where
  "is_active a now = (is_enabled a \<and> (no_window a \<or> within_window a now))"

section \<open>A concrete environment and state\<close>

text \<open>
  An environment at which the handlers can be evaluated: the asset directory of a
  player, stand-ins for the library functions, and one draw of random bytes.
\<close>

definition example_env :: env where
  "example_env =
     \<lparr>cwd = ''/home/pi/screenly'',
      assetdir = ''/home/pi/screenly_assets'',
      validate_url = (\<lambda>u. startswith u ''http://'' \<or> startswith u ''https://''),
      url_fails = (\<lambda>u. startswith u ''http://down.example.com''),
      get_video_duration = (\<lambda>f u. if isfile ''/home/pi/screenly'' f u then Inr 12500000
                                   else Inl IOError),
      download_video_from_youtube = (\<lambda>u asset_id.
        case asset_id of
          PStr i \<Rightarrow> Inr (path_join ''/home/pi/screenly_assets'' i, PStr ''Launch'', PInt 42)
        | _ \<Rightarrow> Inl TypeError),
      date_parse = (\<lambda>s. if s = ''2017-02-02T00:33:00.000Z''
                          then Inr \<lparr>dt_fields = [2017, 2, 2, 0, 33, 0, 0], dt_tzinfo = Some 0\<rparr>
                          else Inl ValueError),
      guess_type = (\<lambda>name. if name = ''backup.tar'' then (Some ''application/x-tar'', None)
                            else (None, None)),
      backup_recover = (\<lambda>location st. (Inr (), st)),
      total_seconds = (\<lambda>t. of_int t / 1000000)\<rparr>"

definition empty_state :: server_state where
  "empty_state =
     \<lparr>fs = Map.empty, db = [],
      entropy = (\<lambda>n. 0x0123456789abcdef0123456789abcdef + word_of_nat n), draws = 0,
      publisher = None, instances_made = 0, sent = [],
      viewer_listening = False, received = []\<rparr>"

definition local_asset :: asset where
  "local_asset = [''asset_id'' \<mapsto> PStr ''aaaa'', ''name'' \<mapsto> PStr ''Photo'',
     ''uri'' \<mapsto> PStr ''/home/pi/screenly_assets/aaaa'', ''mimetype'' \<mapsto> PStr ''image'']"

definition web_asset :: asset where
  "web_asset = [''asset_id'' \<mapsto> PStr ''bbbb'', ''name'' \<mapsto> PStr ''Website'',
     ''uri'' \<mapsto> PStr ''http://example.com'', ''mimetype'' \<mapsto> PStr ''webpage'']"

definition ghost_asset :: asset where
  "ghost_asset = [''asset_id'' \<mapsto> PStr ''cccc'', ''name'' \<mapsto> PStr ''Gone'',
     ''uri'' \<mapsto> PStr ''/home/pi/screenly_assets/cccc'', ''mimetype'' \<mapsto> PStr ''image'']"

text \<open>
  A catalog of three assets: one with its file in the asset directory, a web page, and
  one whose file in the asset directory is gone. A file outside the directory stands by.
\<close>

definition stored_state :: server_state where
  "stored_state = empty_state
     \<lparr>fs := [''/home/pi/screenly_assets/aaaa'' \<mapsto> File ''JPEG'',
             ''/home/pi/notes.txt'' \<mapsto> File ''memo''],
      db := [local_asset, web_asset, ghost_asset]\<rparr>"




text \<open>
  A catalog that already holds an asset under the id that the next random block yields.
\<close>

definition taken_asset :: asset where
  "taken_asset = [''asset_id'' \<mapsto> PStr ''0123456789ab4def8123456789abcdef'',
     ''name'' \<mapsto> PStr ''Website'', ''uri'' \<mapsto> PStr ''http://example.com'',
     ''mimetype'' \<mapsto> PStr ''webpage'']"

definition collision_state :: server_state where
  "collision_state = empty_state
     \<lparr>fs := [''/tmp/upload/photo.png'' \<mapsto> File ''PNG''], db := [taken_asset]\<rparr>"

text \<open>Two requests whose URL fails the liveness probe: a web page and a YouTube reference.\<close>

definition down_request :: "(string \<times> py_val) list" where
  "down_request =
     [(''name'', PStr ''Status''), (''uri'', PStr ''http://down.example.com/status''),
      (''mimetype'', PStr ''webpage''), (''duration'', PStr ''10'')]"

definition youtube_request :: "(string \<times> py_val) list" where
  "youtube_request =
     [(''name'', PStr ''Launch''), (''uri'', PStr ''http://down.example.com/watch''),
      (''mimetype'', PStr ''youtube_asset''), (''duration'', PStr ''42'')]"

definition chunk_A :: upload where
  "chunk_A = \<lparr>filename = ''clip.mp4'', payload = ''abc''\<rparr>"

definition chunk_B :: upload where
  "chunk_B = \<lparr>filename = ''clip.mp4'', payload = ''def''\<rparr>"

text \<open>Requests and a state for evaluating \<^verbatim>\<open>prepare_asset\<close>.\<close>

definition website_request :: "(string \<times> py_val) list" where
  "website_request =
     [(''asset_id'', PStr ''793406aa1fd34b85aa82614004c0e63a''),
      (''name'', PStr ''Website''), (''uri'', PStr '' http://example.com''),
      (''mimetype'', PStr ''webpage''), (''duration'', PStr ''10''),
      (''start_date'', PStr ''2017-02-02T00:33:00.000Z'')]"

definition upload_request :: "(string \<times> py_val) list" where
  "upload_request =
     [(''name'', PStr ''Photo''), (''uri'', PStr ''/tmp/upload/photo.png''),
      (''mimetype'', PStr ''image''), (''duration'', PStr ''10'')]"

definition upload_state :: server_state where
  "upload_state = empty_state
     \<lparr>fs := [''/tmp/upload/photo.png'' \<mapsto> File ''PNG'',
             ''/tmp/upload/movie.mp4'' \<mapsto> File ''MPEG'',
             ''/home/pi/screenly/media/clip.mp4'' \<mapsto> File ''MPEG'']\<rparr>"

definition relative_request :: "(string \<times> py_val) list" where
  "relative_request =
     [(''name'', PStr ''Clip''), (''uri'', PStr ''media/clip.mp4''),
      (''mimetype'', PStr ''video''), (''duration'', PStr ''N/A'')]"

definition missing_file_request :: "(string \<times> py_val) list" where
  "missing_file_request =
     [(''name'', PStr ''Clip''), (''uri'', PStr ''/tmp/upload/clip.mp4''),
      (''mimetype'', PStr ''video''), (''duration'', PStr ''N/A'')]"

definition video_request :: "py_val \<Rightarrow> (string \<times> py_val) list" where
  "video_request duration =
     [(''name'', PStr ''Movie''), (''uri'', PStr ''/tmp/upload/movie.mp4''),
      (''mimetype'', PStr ''video''), (''duration'', duration)]"

definition video_request_no_duration :: "(string \<times> py_val) list" where
  "video_request_no_duration =
     [(''name'', PStr ''Movie''), (''uri'', PStr ''/tmp/upload/movie.mp4''),
      (''mimetype'', PStr ''video'')]"

definition website_request_no_duration :: "(string \<times> py_val) list" where
  "website_request_no_duration =
     [(''name'', PStr ''Website''), (''uri'', PStr ''http://example.com''),
      (''mimetype'', PStr ''webpage'')]"

definition nameless_request :: "(string \<times> py_val) list" where
  "nameless_request =
     [(''name'', PStr ''   ''), (''uri'', PStr ''http://example.com''),
      (''mimetype'', PStr ''webpage''), (''duration'', PStr ''10'')]"

section \<open>Properties: the active state\<close>

text \<open>
  C1. For every asset, is_active is true if and only if is_enabled is true and either no
  active window is set or the current time lies in [start_date, end_date], bounds
  included.
\<close>

theorem is_active_iff:
  "is_active a now \<longleftrightarrow>
     is_enabled a \<and>
     ((start_date a = None \<and> end_date a = None) \<or>
      (\<exists>s e. start_date a = Some s \<and> end_date a = Some e \<and> s \<le> now \<and> now \<le> e))"
  by (auto simp: is_active_def no_window_def within_window_def split: option.splits)

text \<open>An enabled asset is active at both ends of its window and inactive after it.\<close>

theorem is_active_iff_witness:
  "is_active \<lparr>is_enabled = True, start_date = Some 10, end_date = Some 20\<rparr> 10
   \<and> is_active \<lparr>is_enabled = True, start_date = Some 10, end_date = Some 20\<rparr> 20
   \<and> \<not> is_active \<lparr>is_enabled = True, start_date = Some 10, end_date = Some 20\<rparr> 21
   \<and> is_active \<lparr>is_enabled = True, start_date = None, end_date = None\<rparr> 21
   \<and> \<not> is_active \<lparr>is_enabled = False, start_date = None, end_date = None\<rparr> 21"
  by (simp add: is_active_iff)

section \<open>Properties: recovery refuses what is not a tar archive\<close>

text \<open>
  C4. The type an upload declares is the one \<^verbatim>\<open>guess_type\<close> reads off its file name. For
  every upload whose type is not \<^verbatim>\<open>application/x-tar\<close>, \<^verbatim>\<open>Recover.post\<close> answers with an
  error and the state it leaves is the state it found: the catalog, the asset
  directory and every other file are untouched.
\<close>

theorem Recover_post_rejects_non_tar:
  assumes "fst (guess_type e (filename up)) \<noteq> Some ''application/x-tar''"
  shows "Recover_post e st (Some up) = (Inl (Exception ''Incorrect file extension.''), st)"
  using assms by (simp add: Recover_post_def)

theorem Recover_post_rejects_non_tar_witness:
  "fst (guess_type example_env ''holiday.png'') \<noteq> Some ''application/x-tar''
   \<and> Recover_post example_env empty_state (Some \<lparr>filename = ''holiday.png'', payload = ''PNG''\<rparr>)
       = (Inl (Exception ''Incorrect file extension.''), empty_state)"
proof -
  have h: "fst (guess_type example_env (filename \<lparr>filename = ''holiday.png'', payload = ''PNG''\<rparr>))
             \<noteq> Some ''application/x-tar''"
    by (simp add: example_env_def)
  from Recover_post_rejects_non_tar [OF h, of empty_state] h show ?thesis by simp
qed

section \<open>Properties: playback control\<close>

text \<open>
  C9. For every command and every state, \<^verbatim>\<open>AssetsControl.get\<close> answers "Asset switched":
  it hands the command to the publisher of the process (the one already there, if
  there is one) and reports no failure, whether or not the viewer is listening; when
  it is not, the viewer receives nothing. Catalog and files are untouched.
\<close>

theorem AssetsControl_get_succeeds:
  "\<exists>p st'. AssetsControl_get st command = (Inr ''Asset switched'', st')
     \<and> publisher st' = Some p
     \<and> (\<forall>q. publisher st = Some q \<longrightarrow> p = q)
     \<and> sent st' = sent st @ [(p, command)]
     \<and> (\<not> viewer_listening st \<longrightarrow> received st' = received st)
     \<and> fs st' = fs st \<and> db st' = db st"
  by (cases "publisher st")
    (simp_all add: AssetsControl_get_def get_instance_def send_to_viewer_def)

text \<open>Two commands in a row, with no viewer listening, go to the same publisher.\<close>

theorem AssetsControl_get_succeeds_witness:
  "AssetsControl_get empty_state ''next'' =
     (Inr ''Asset switched'',
      empty_state\<lparr>publisher := Some 0, instances_made := 1, sent := [(0, ''next'')]\<rparr>)
   \<and> \<not> viewer_listening empty_state
   \<and> received (snd (AssetsControl_get empty_state ''next'')) = []
   \<and> sent (snd (AssetsControl_get (snd (AssetsControl_get empty_state ''next'')) ''previous''))
       = [(0, ''next''), (0, ''previous'')]"
  using AssetsControl_get_succeeds [of empty_state "''next''"]
  by (simp add: AssetsControl_get_def get_instance_def send_to_viewer_def empty_state_def)

section \<open>Properties: chunked upload\<close>

text \<open>
  What \<^verbatim>\<open>FileAsset.post\<close> does with a chunk. Without a \<^verbatim>\<open>Content-Range\<close> header the
  temporary file is created, or replaced, and holds the payload. With the header the
  payload goes to the end of the temporary file: the declared start \<open>k\<close> has no effect.
\<close>

lemma FileAsset_post_first_chunk:
  assumes "fs st (resolve (cwd e) (path_join (assetdir e) (filename up) @ ''.tmp'')) \<noteq> Some Dir"
  shows "FileAsset_post e st (Some up) None =
     (Inr (path_join (assetdir e) (filename up) @ ''.tmp''),
      st\<lparr>fs := (fs st)(resolve (cwd e) (path_join (assetdir e) (filename up) @ ''.tmp'')
                        \<mapsto> File (payload up))\<rparr>)"
  using assms
  by (simp add: FileAsset_post_def save_def Let_def split: option.splits fnode.splits)

lemma FileAsset_post_range_appends:
  assumes "range_start range_str = Inr k"
    and "fs st (resolve (cwd e) (path_join (assetdir e) (filename up) @ ''.tmp'')) = Some (File c)"
  shows "FileAsset_post e st (Some up) (Some range_str) =
     (Inr (path_join (assetdir e) (filename up) @ ''.tmp''),
      st\<lparr>fs := (fs st)(resolve (cwd e) (path_join (assetdir e) (filename up) @ ''.tmp'')
                        \<mapsto> File (c @ payload up))\<rparr>)"
  using assms by (simp add: FileAsset_post_def append_at_def Let_def)

lemma range_start_examples:
  "range_start ''bytes 3-5/6'' = Inr 3"
  "range_start ''bytes 0-2/6'' = Inr 0"
  by (simp_all add: range_start_def index_def bind_def int_of_string_def strip_def
      py_isspace_def int_of_digits_def is_digit_def digits_value_def)

lemma tmp_path:
  "path_join (assetdir example_env) ''clip.mp4'' @ ''.tmp''
     = ''/home/pi/screenly_assets/clip.mp4.tmp''"
  "resolve (cwd example_env) ''/home/pi/screenly_assets/clip.mp4.tmp''
     = ''/home/pi/screenly_assets/clip.mp4.tmp''"
  by (simp_all add: path_join_def example_env_def startswith_def resolve_def components_def)

text \<open>
  C2. The file "abcdef" is uploaded as chunk A = "abc" at offset 0 and chunk B = "def" at
  offset 3. Sent B first and then A, both with their ranges, the temporary file reads
  "defabc"; sent B first and then A as a first chunk without a range, it reads "abc". Only
  A first and then B gives "abcdef", and sending B once more at the same offset 3 gives
  "abcdefdef": a chunk is never written at its declared offset, but at the end.
\<close>

theorem FileAsset_post_out_of_order:
  "fs (snd (FileAsset_post example_env
         (snd (FileAsset_post example_env empty_state (Some chunk_B) (Some ''bytes 3-5/6'')))
         (Some chunk_A) (Some ''bytes 0-2/6'')))
      ''/home/pi/screenly_assets/clip.mp4.tmp'' = Some (File ''defabc'')
   \<and> fs (snd (FileAsset_post example_env
         (snd (FileAsset_post example_env empty_state (Some chunk_B) (Some ''bytes 3-5/6'')))
         (Some chunk_A) None))
      ''/home/pi/screenly_assets/clip.mp4.tmp'' = Some (File ''abc'')
   \<and> fs (snd (FileAsset_post example_env
         (snd (FileAsset_post example_env empty_state (Some chunk_A) None))
         (Some chunk_B) (Some ''bytes 3-5/6'')))
      ''/home/pi/screenly_assets/clip.mp4.tmp'' = Some (File ''abcdef'')
   \<and> fs (snd (FileAsset_post example_env
         (snd (FileAsset_post example_env
           (snd (FileAsset_post example_env empty_state (Some chunk_A) None))
           (Some chunk_B) (Some ''bytes 3-5/6'')))
         (Some chunk_B) (Some ''bytes 3-5/6'')))
      ''/home/pi/screenly_assets/clip.mp4.tmp'' = Some (File ''abcdefdef'')"
  by (simp add: FileAsset_post_def range_start_examples tmp_path chunk_A_def chunk_B_def
      append_at_def save_def empty_state_def Let_def)

section \<open>Properties: creating and updating assets\<close>

subsection \<open>When the stages succeed\<close>

lemma bind_Inr: "bind m f = Inr y \<longleftrightarrow> (\<exists>x. m = Inr x \<and> f x = Inr y)"
  by (cases m) (simp_all add: bind_def)

lemma check_uri_Inr:
  "check_uri e f v = Inr u \<longleftrightarrow>
     v = PStr u \<and> (if startswith u ''/'' then isfile (cwd e) f u else validate_url e u)"
  by (cases v) (auto simp: check_uri_def)

lemma prepare_asset_Inr:
  "prepare_asset e st data = (Inr a, st') \<longleftrightarrow>
     (\<exists>d u. data = PDict d
        \<and> truthy (get d ''name'') \<and> truthy (get d ''uri'') \<and> truthy (get d ''mimetype'')
        \<and> check_uri e (fs st) (get d ''uri'') = Inr u
        \<and> prepare_accepted e st d u = (Inr a, st'))"
  by (cases data) (auto simp: prepare_asset_def split: sum.splits)

lemma prepare_accepted_Inr:
  "prepare_accepted e st d u = (Inr a, st') \<longleftrightarrow>
     (\<exists>asset_id u1. assign_id e st (get d ''asset_id'') u = (Inr (asset_id, u1), st')
        \<and> finish_asset e (fs st') d ((initial_asset d)(''asset_id'' \<mapsto> asset_id)) u1 = Inr a)"
  by (auto simp: prepare_accepted_def split: sum.splits prod.splits)

lemma finish_asset_Inr:
  "finish_asset e f d a u = Inr r \<longleftrightarrow>
     (\<exists>a1 u1 a2 sd ed. resolve_youtube e a u = Inr (a1, u1)
        \<and> resolve_duration e f d (a1(''uri'' \<mapsto> PStr u1)) u1 = Inr a2
        \<and> parse_date e (get d ''start_date'') = Inr sd
        \<and> parse_date e (get d ''end_date'') = Inr ed
        \<and> r = a2(''start_date'' \<mapsto> sd, ''end_date'' \<mapsto> ed))"
  by (auto simp: finish_asset_def bind_Inr)

lemma parse_date_Inr:
  "parse_date e v = Inr r \<longleftrightarrow>
     (if truthy v
      then (\<exists>s dt. v = PStr s \<and> date_parse e s = Inr dt \<and> r = PDate (dt\<lparr>dt_tzinfo := None\<rparr>))
      else r = PStr [])"
  by (cases v) (auto simp: parse_date_def bind_Inr)

lemma resolve_duration_other:
  "resolve_duration e f d a u = Inr a2 \<Longrightarrow> k \<noteq> ''duration'' \<Longrightarrow> a2 k = a k"
  by (auto simp: resolve_duration_def probe_duration_def bind_Inr split: option.splits if_splits)

lemma resolve_youtube_Inr:
  "resolve_youtube e a u = Inr (a1, u1) \<longleftrightarrow>
     (\<exists>m. a ''mimetype'' = Some m \<and>
        ((py_in ''youtube_asset'' m = Inr False \<and> a1 = a \<and> u1 = u) \<or>
         (py_in ''youtube_asset'' m = Inr True \<and>
            (\<exists>asset_id name' duration'. a ''asset_id'' = Some asset_id
               \<and> download_video_from_youtube e u asset_id = Inr (u1, name', duration')
               \<and> a1 = a(''name'' \<mapsto> name', ''duration'' \<mapsto> duration',
                        ''mimetype'' \<mapsto> PStr ''video'', ''is_processing'' \<mapsto> PInt 1)))))"
  by (auto simp: resolve_youtube_def bind_Inr split: option.splits)

subsection \<open>Dates\<close>

text \<open>
  C7. Whenever \<^verbatim>\<open>prepare_asset\<close> accepts a request: a start_date that is supplied (a true
  value after trimming) is a string that \<^verbatim>\<open>dateutil\<close> parses, and the date is stored with
  its time zone removed and its other fields as parsed; a start_date that is absent
  (missing, empty or blank, or another false value) is stored as the empty string, not as
  \<^verbatim>\<open>None\<close>. The same holds for end_date.
\<close>

theorem prepare_asset_dates:
  assumes "prepare_asset e st (PDict d) = (Inr a, st')"
  shows "(truthy (get d ''start_date'') \<longrightarrow>
            (\<exists>s dt. get d ''start_date'' = PStr s \<and> date_parse e s = Inr dt
               \<and> a ''start_date'' = Some (PDate (dt\<lparr>dt_tzinfo := None\<rparr>))))
       \<and> (\<not> truthy (get d ''start_date'') \<longrightarrow> a ''start_date'' = Some (PStr []))
       \<and> (truthy (get d ''end_date'') \<longrightarrow>
            (\<exists>s dt. get d ''end_date'' = PStr s \<and> date_parse e s = Inr dt
               \<and> a ''end_date'' = Some (PDate (dt\<lparr>dt_tzinfo := None\<rparr>))))
       \<and> (\<not> truthy (get d ''end_date'') \<longrightarrow> a ''end_date'' = Some (PStr []))"
proof -
  from assms obtain a2 sd ed where
    sd: "parse_date e (get d ''start_date'') = Inr sd" and
    ed: "parse_date e (get d ''end_date'') = Inr ed" and
    a: "a = a2(''start_date'' \<mapsto> sd, ''end_date'' \<mapsto> ed)"
    unfolding prepare_asset_Inr prepare_accepted_Inr finish_asset_Inr by blast
  have s: "a ''start_date'' = Some sd" and e: "a ''end_date'' = Some ed"
    by (simp_all add: a)
  from sd ed show ?thesis
    unfolding parse_date_Inr s e by (auto split: if_splits)
qed

lemmas eval_defs = prepare_asset_def prepare_accepted_def get_def strip_def py_isspace_def
  check_uri_def startswith_def assign_id_def uuid4_def finish_asset_def resolve_youtube_def
  resolve_duration_def probe_duration_def parse_date_def initial_asset_def bind_def
  int_of_string_def int_of_digits_def is_digit_def digits_value_def isfile_def rename_def
  resolve_def components_def path_join_def trunc_towards_zero_def Let_def

lemmas state_defs = upload_state_def empty_state_def

lemma uuid_example:
  "uuid4_hex 0x0123456789abcdef0123456789abcdef = ''0123456789ab4def8123456789abcdef''"
  by (simp add: uuid4_hex_def uuid4_int_def hex32_def hex_digit_def upt_rec)

lemma env_fields:
  "cwd example_env = ''/home/pi/screenly''"
  "assetdir example_env = ''/home/pi/screenly_assets''"
  "validate_url example_env = (\<lambda>u. startswith u ''http://'' \<or> startswith u ''https://'')"
  "url_fails example_env = (\<lambda>u. startswith u ''http://down.example.com'')"
  "get_video_duration example_env
     = (\<lambda>f u. if isfile ''/home/pi/screenly'' f u then Inr 12500000 else Inl IOError)"
  "download_video_from_youtube example_env = (\<lambda>u asset_id.
        case asset_id of
          PStr i \<Rightarrow> Inr (path_join ''/home/pi/screenly_assets'' i, PStr ''Launch'', PInt 42)
        | _ \<Rightarrow> Inl TypeError)"
  "date_parse example_env = (\<lambda>s. if s = ''2017-02-02T00:33:00.000Z''
                          then Inr \<lparr>dt_fields = [2017, 2, 2, 0, 33, 0, 0], dt_tzinfo = Some 0\<rparr>
                          else Inl ValueError)"
  "total_seconds example_env = (\<lambda>t. of_int t / 1000000)"
  by (simp_all add: example_env_def)

lemma website_prepared:
  "\<exists>a. prepare_asset example_env empty_state (PDict website_request) = (Inr a, empty_state)"
  by (simp add: eval_defs website_request_def env_fields empty_state_def)

theorem prepare_asset_dates_witness:
  "\<exists>a. prepare_asset example_env empty_state (PDict website_request) = (Inr a, empty_state)
     \<and> truthy (get website_request ''start_date'')
     \<and> a ''start_date''
         = Some (PDate \<lparr>dt_fields = [2017, 2, 2, 0, 33, 0, 0], dt_tzinfo = None\<rparr>)
     \<and> \<not> truthy (get website_request ''end_date'')
     \<and> a ''end_date'' = Some (PStr [])"
proof -
  from website_prepared obtain a where
    h: "prepare_asset example_env empty_state (PDict website_request) = (Inr a, empty_state)" ..
  have g: "get website_request ''start_date'' = PStr ''2017-02-02T00:33:00.000Z''"
    "get website_request ''end_date'' = PStr []"
    by (simp_all add: get_def website_request_def strip_def py_isspace_def)
  from prepare_asset_dates [OF h] have
    "a ''start_date'' = Some (PDate \<lparr>dt_fields = [2017, 2, 2, 0, 33, 0, 0], dt_tzinfo = None\<rparr>)"
    "a ''end_date'' = Some (PStr [])"
    by (auto simp: g env_fields)
  with h g show ?thesis by simp
qed

section \<open>Properties: deleting an asset and its file\<close>









section \<open>Properties: identifiers\<close>

subsection \<open>The hexadecimal form of a UUID\<close>

lemma hex_digit_is_hex: "n < 16 \<Longrightarrow> is_hex_digit (hex_digit n)"
  unfolding is_hex_digit_def hex_digit_def by (rule nth_mem) simp

lemma nibble_less: "unat ((w :: 128 word) AND 15) < 16"
proof -
  have "w AND 15 \<le> 15" by (rule word_and_le1)
  then have "unat (w AND 15) \<le> unat (15 :: 128 word)" by (simp add: word_le_nat_alt)
  then show ?thesis by simp
qed

lemma hex32_length: "length (hex32 w) = 32"
  by (simp add: hex32_def)

lemma hex32_digits: "list_all is_hex_digit (hex32 w)"
  by (simp add: hex32_def list_all_iff hex_digit_is_hex nibble_less)

lemma hex32_not_absolute: "\<not> startswith (hex32 w) ''/''"
proof -
  obtain c cs where w: "hex32 w = c # cs"
    using hex32_length [of w] by (cases "hex32 w") auto
  with hex32_digits [of w] have "is_hex_digit c" by simp
  then have "c \<noteq> CHR ''/''" by (auto simp: is_hex_digit_def)
  with w show ?thesis by (simp add: startswith_def)
qed

lemma path_join_relative:
  "\<not> startswith b ''/'' \<Longrightarrow> startswith (path_join a b) a"
  by (simp add: path_join_def startswith_def)

lemma rename_Inr:
  "rename wd f src dst = Inr f' \<longleftrightarrow>
     (\<exists>c. f (resolve wd src) = Some (File c) \<and> f (resolve wd dst) \<noteq> Some Dir
        \<and> f' = (f(resolve wd src := None))(resolve wd dst \<mapsto> File c))"
  by (auto simp: rename_def split: option.splits fnode.splits)

lemma assign_id_new:
  assumes "\<not> truthy i" and "assign_id e st i u = (Inr (asset_id, u1), st1)"
  shows "asset_id = PStr (uuid4_hex (entropy st (draws st)))"
    and "draws st1 = Suc (draws st)" and "entropy st1 = entropy st" and "db st1 = db st"
    and "startswith u ''/'' \<Longrightarrow>
           u1 = path_join (assetdir e) (uuid4_hex (entropy st (draws st)))"
    and "startswith u ''/'' \<Longrightarrow>
           \<exists>c. fs st (resolve (cwd e) u) = Some (File c)
             \<and> fs st1 = ((fs st)(resolve (cwd e) u := None))
                  (resolve (cwd e) (path_join (assetdir e) (uuid4_hex (entropy st (draws st))))
                     \<mapsto> File c)"
    and "\<not> startswith u ''/'' \<Longrightarrow> u1 = u \<and> fs st1 = fs st"
  using assms
  by (auto simp: assign_id_def uuid4_def rename_Inr split: if_splits sum.splits)

lemma hex_digit_inj: "m < 16 \<Longrightarrow> n < 16 \<Longrightarrow> hex_digit m = hex_digit n \<Longrightarrow> m = n"
  unfolding hex_digit_def by (subst (asm) nth_eq_iff_index_eq) simp_all

lemma nibble_bit:
  "bit (drop_bit (4 * (n div 4)) (w :: 128 word) AND 15) (n mod 4) = bit w n"
proof -
  have "bit (15 :: 128 word) (n mod 4)"
  proof -
    have "n mod 4 < 4" by simp
    then consider "n mod 4 = 0" | "n mod 4 = 1" | "n mod 4 = 2" | "n mod 4 = 3" by linarith
    then show ?thesis by cases (simp_all add: bit_numeral_simps)
  qed
  then show ?thesis by (simp add: bit_and_iff bit_drop_bit_eq)
qed

lemma hex32_inj:
  assumes "hex32 w = hex32 v"
  shows "w = v"
proof (rule bit_word_eqI)
  fix n
  assume "n < LENGTH(128)"
  then have i: "n div 4 < 32" by simp
  let ?f = "\<lambda>(x :: 128 word) i. hex_digit (unat (drop_bit (4 * i) x AND 15))"
  from assms have "map (?f w) (rev [0..<32]) = map (?f v) (rev [0..<32])"
    by (simp add: hex32_def)
  then have "\<forall>i \<in> set (rev [0..<32]). ?f w i = ?f v i"
    by (simp only: map_eq_conv)
  with i have "?f w (n div 4) = ?f v (n div 4)" by simp
  then have "unat (drop_bit (4 * (n div 4)) w AND 15) = unat (drop_bit (4 * (n div 4)) v AND 15)"
    by (rule hex_digit_inj [OF nibble_less nibble_less])
  then have "drop_bit (4 * (n div 4)) w AND 15 = drop_bit (4 * (n div 4)) v AND 15"
    by (simp only: word_unat_eq_iff)
  then have "bit (drop_bit (4 * (n div 4)) w AND 15) (n mod 4)
           = bit (drop_bit (4 * (n div 4)) v AND 15) (n mod 4)" by simp
  then show "bit w n = bit v n" by (simp only: nibble_bit)
qed

lemma keep_random_bits:
  fixes r a b c d :: "'a::len word"
  assumes "b AND NOT a = 0" and "d AND NOT c = 0"
  shows "((((r AND NOT a) OR b) AND NOT c) OR d) AND NOT (a OR c) = r AND NOT (a OR c)"
proof (rule bit_word_eqI)
  fix n
  assume n: "n < LENGTH('a)"
  from assms(1) have "bit (b AND NOT a) n = bit (0 :: 'a word) n" by simp
  with n have b: "bit b n \<Longrightarrow> bit a n" by (simp add: bit_and_iff bit_not_iff)
  from assms(2) have "bit (d AND NOT c) n = bit (0 :: 'a word) n" by simp
  with n have d: "bit d n \<Longrightarrow> bit c n" by (simp add: bit_and_iff bit_not_iff)
  from b d show "bit (((((r AND NOT a) OR b) AND NOT c) OR d) AND NOT (a OR c)) n
      = bit (r AND NOT (a OR c)) n"
    by (auto simp: bit_and_iff bit_or_iff bit_not_iff)
qed

lemma uuid4_int_random_bits: "uuid4_int r AND NOT fixed_bits = r AND NOT fixed_bits"
  unfolding uuid4_int_def fixed_bits_def by (rule keep_random_bits) simp_all

lemma uuid4_hex_inj:
  assumes "uuid4_hex r = uuid4_hex r'"
  shows "r AND NOT fixed_bits = r' AND NOT fixed_bits"
proof -
  from assms have "uuid4_int r = uuid4_int r'"
    unfolding uuid4_hex_def by (rule hex32_inj)
  then have "uuid4_int r AND NOT fixed_bits = uuid4_int r' AND NOT fixed_bits" by simp
  then show ?thesis by (simp only: uuid4_int_random_bits)
qed

subsection \<open>The asset id and the move into the asset directory\<close>

lemma resolve_youtube_asset_id:
  "resolve_youtube e a u = Inr (a1, u1) \<Longrightarrow> a1 ''asset_id'' = a ''asset_id''"
  unfolding resolve_youtube_Inr by auto

lemma resolve_youtube_not_youtube:
  "resolve_youtube e a u = Inr (a1, u1) \<Longrightarrow> a ''mimetype'' = Some m
     \<Longrightarrow> py_in ''youtube_asset'' m = Inr False \<Longrightarrow> a1 = a \<and> u1 = u"
  unfolding resolve_youtube_Inr by auto

lemma initial_asset_mimetype:
  "((initial_asset d)(''asset_id'' \<mapsto> i)) ''mimetype'' = Some (get d ''mimetype'')"
  by (simp add: initial_asset_def)

lemma upload_prepared:
  "\<exists>a st'. prepare_asset example_env upload_state (PDict upload_request) = (Inr a, st')"
  by (simp add: eval_defs upload_request_def uuid_example env_fields state_defs)

text \<open>
  C8, as the code has it. Whenever \<^verbatim>\<open>prepare_asset\<close> accepts a request that supplies no
  asset_id, the id of the record is \<^verbatim>\<open>uuid4().hex\<close> of the next block of random bytes,
  which is used up: 32 lower-case hexadecimal digits that encode the block's 122 random
  bits, so that two blocks which differ in a random bit give different ids. The id is
  not compared with the catalog. If the uri is a local path, the file there is moved to
  the asset directory joined with the new id, a path that begins with the asset
  directory's, and nothing else changes in the file system; that path is the uri of the
  record unless the mimetype is a YouTube reference, whose uri comes from
  \<^verbatim>\<open>download_video_from_youtube\<close>. If the uri is not a local path no file moves.
\<close>

theorem prepare_asset_assigns_id:
  assumes "prepare_asset e st (PDict d) = (Inr a, st')" and "\<not> truthy (get d ''asset_id'')"
  shows "\<exists>u. get d ''uri'' = PStr u
     \<and> a ''asset_id'' = Some (PStr (uuid4_hex (entropy st (draws st))))
     \<and> draws st' = Suc (draws st) \<and> entropy st' = entropy st
     \<and> length (uuid4_hex (entropy st (draws st))) = 32
     \<and> list_all is_hex_digit (uuid4_hex (entropy st (draws st)))
     \<and> (\<forall>r. uuid4_hex r = uuid4_hex (entropy st (draws st)) \<longrightarrow>
           r AND NOT fixed_bits = entropy st (draws st) AND NOT fixed_bits)
     \<and> (startswith u ''/'' \<longrightarrow>
          (\<exists>c. fs st (resolve (cwd e) u) = Some (File c)
             \<and> fs st' = ((fs st)(resolve (cwd e) u := None))
                  (resolve (cwd e) (path_join (assetdir e) (uuid4_hex (entropy st (draws st))))
                     \<mapsto> File c))
          \<and> startswith (path_join (assetdir e) (uuid4_hex (entropy st (draws st)))) (assetdir e)
          \<and> (py_in ''youtube_asset'' (get d ''mimetype'') = Inr False \<longrightarrow>
               a ''uri''
                 = Some (PStr (path_join (assetdir e) (uuid4_hex (entropy st (draws st)))))))
     \<and> (\<not> startswith u ''/'' \<longrightarrow> fs st' = fs st)"
proof -
  let ?id = "uuid4_hex (entropy st (draws st))"
  let ?dst = "path_join (assetdir e) ?id"
  from assms(1) obtain u asset_id u1 where
    chk: "check_uri e (fs st) (get d ''uri'') = Inr u" and
    asg: "assign_id e st (get d ''asset_id'') u = (Inr (asset_id, u1), st')" and
    fin: "finish_asset e (fs st') d ((initial_asset d)(''asset_id'' \<mapsto> asset_id)) u1 = Inr a"
    unfolding prepare_asset_Inr prepare_accepted_Inr by blast
  from fin obtain a1 u2 a2 sd ed where
    yt: "resolve_youtube e ((initial_asset d)(''asset_id'' \<mapsto> asset_id)) u1 = Inr (a1, u2)" and
    dur: "resolve_duration e (fs st') d (a1(''uri'' \<mapsto> PStr u2)) u2 = Inr a2" and
    a: "a = a2(''start_date'' \<mapsto> sd, ''end_date'' \<mapsto> ed)"
    unfolding finish_asset_Inr by blast
  note new = assign_id_new [OF assms(2) asg]
  from chk have uri: "get d ''uri'' = PStr u" by (simp add: check_uri_Inr)
  have a_id: "a ''asset_id'' = a2 ''asset_id''" and a_uri: "a ''uri'' = a2 ''uri''"
    by (simp_all add: a)
  have a2_id: "a2 ''asset_id'' = a1 ''asset_id''"
    using resolve_duration_other [OF dur, of "''asset_id''"] by simp
  have a2_uri: "a2 ''uri'' = Some (PStr u2)"
    using resolve_duration_other [OF dur, of "''uri''"] by simp
  have a1_id: "a1 ''asset_id'' = Some asset_id"
    using resolve_youtube_asset_id [OF yt] by simp
  have c1: "a ''asset_id'' = Some (PStr ?id)"
    by (simp add: a_id a2_id a1_id new(1))
  have c2: "length ?id = 32" and c3: "list_all is_hex_digit ?id"
    by (simp_all add: uuid4_hex_def hex32_length hex32_digits)
  have c4: "fs st' = fs st" if "\<not> startswith u ''/''"
    using new(7) [OF that] by simp
  have c5: "\<exists>c. fs st (resolve (cwd e) u) = Some (File c)
      \<and> fs st' = ((fs st)(resolve (cwd e) u := None))(resolve (cwd e) ?dst \<mapsto> File c)"
    if "startswith u ''/''"
    using new(6) [OF that] by simp
  have c6: "startswith ?dst (assetdir e)"
    by (rule path_join_relative) (simp add: uuid4_hex_def hex32_not_absolute)
  have c7: "a ''uri'' = Some (PStr ?dst)"
    if "startswith u ''/''" "py_in ''youtube_asset'' (get d ''mimetype'') = Inr False"
  proof -
    from resolve_youtube_not_youtube [OF yt initial_asset_mimetype that(2)]
    have "u2 = u1" by simp
    with new(5) [OF that(1)] show ?thesis by (simp add: a_uri a2_uri)
  qed
  have c8: "\<forall>r. uuid4_hex r = ?id \<longrightarrow>
      r AND NOT fixed_bits = entropy st (draws st) AND NOT fixed_bits"
    by (intro allI impI) (rule uuid4_hex_inj)
  from uri c1 new(2) new(3) c2 c3 c8 c4 c5 c6 c7 show ?thesis by blast
qed

theorem prepare_asset_assigns_id_witness:
  "\<exists>a st'. prepare_asset example_env upload_state (PDict upload_request) = (Inr a, st')
     \<and> \<not> truthy (get upload_request ''asset_id'')
     \<and> a ''asset_id'' = Some (PStr ''0123456789ab4def8123456789abcdef'')
     \<and> a ''uri'' = Some (PStr ''/home/pi/screenly_assets/0123456789ab4def8123456789abcdef'')
     \<and> draws st' = 1
     \<and> fs st' ''/tmp/upload/photo.png'' = None
     \<and> fs st' ''/home/pi/screenly_assets/0123456789ab4def8123456789abcdef'' = Some (File ''PNG'')"
proof -
  from upload_prepared obtain a st' where
    h: "prepare_asset example_env upload_state (PDict upload_request) = (Inr a, st')" by blast
  have g: "get upload_request ''asset_id'' = PStr []"
    "get upload_request ''uri'' = PStr ''/tmp/upload/photo.png''"
    "get upload_request ''mimetype'' = PStr ''image''"
    by (simp_all add: get_def upload_request_def strip_def py_isspace_def)
  have n: "\<not> truthy (get upload_request ''asset_id'')" by (simp add: g)
  have p: "path_join ''/home/pi/screenly_assets'' ''0123456789ab4def8123456789abcdef''
             = ''/home/pi/screenly_assets/0123456789ab4def8123456789abcdef''"
    by (simp add: path_join_def startswith_def)
  have r: "resolve ''/home/pi/screenly'' ''/tmp/upload/photo.png'' = ''/tmp/upload/photo.png''"
    "resolve ''/home/pi/screenly'' ''/home/pi/screenly_assets/0123456789ab4def8123456789abcdef''
       = ''/home/pi/screenly_assets/0123456789ab4def8123456789abcdef''"
    by (simp_all add: resolve_def components_def startswith_def)
  have f: "fs upload_state ''/tmp/upload/photo.png'' = Some (File ''PNG'')"
    "draws upload_state = 0"
    "entropy upload_state 0 = 0x0123456789abcdef0123456789abcdef"
    by (simp_all add: state_defs)
  from prepare_asset_assigns_id [OF h n] have
    "a ''asset_id'' = Some (PStr ''0123456789ab4def8123456789abcdef'')
     \<and> a ''uri'' = Some (PStr ''/home/pi/screenly_assets/0123456789ab4def8123456789abcdef'')
     \<and> draws st' = 1
     \<and> fs st' ''/tmp/upload/photo.png'' = None
     \<and> fs st' ''/home/pi/screenly_assets/0123456789ab4def8123456789abcdef'' = Some (File ''PNG'')"
    by (auto simp: f g env_fields uuid_example p r startswith_def)
  with h n show ?thesis by blast
qed

text \<open>
  C8 as stated fails: the new id is not compared with the catalog, so it need not be
  fresh. When the catalog already holds an asset under the id that the next random block
  yields, the request gets that very id.
\<close>

theorem prepare_asset_assigns_id_counterexample:
  "taken_asset \<in> set (db collision_state)
   \<and> taken_asset ''asset_id'' = Some (PStr ''0123456789ab4def8123456789abcdef'')
   \<and> \<not> truthy (get upload_request ''asset_id'')
   \<and> (\<exists>a st'. prepare_asset example_env collision_state (PDict upload_request) = (Inr a, st')
         \<and> a ''asset_id'' = Some (PStr ''0123456789ab4def8123456789abcdef''))"
  by (simp add: eval_defs upload_request_def uuid_example env_fields collision_state_def
      empty_state_def taken_asset_def)

section \<open>Properties: local path or URL\<close>

lemma assign_id_validate_url:
  "assign_id (e\<lparr>validate_url := v\<rparr>) st i u = assign_id e st i u"
  by (simp add: assign_id_def cong: if_cong prod.case_cong sum.case_cong)

lemma probe_duration_validate_url:
  "probe_duration (e\<lparr>validate_url := v\<rparr>) = probe_duration e"
  by (simp add: probe_duration_def fun_eq_iff)

lemma resolve_duration_validate_url:
  "resolve_duration (e\<lparr>validate_url := v\<rparr>) = resolve_duration e"
  by (simp add: resolve_duration_def fun_eq_iff probe_duration_validate_url
      cong: if_cong option.case_cong)

lemma resolve_youtube_validate_url:
  "resolve_youtube (e\<lparr>validate_url := v\<rparr>) = resolve_youtube e"
  by (simp add: resolve_youtube_def fun_eq_iff cong: if_cong option.case_cong)

lemma parse_date_validate_url:
  "parse_date (e\<lparr>validate_url := v\<rparr>) = parse_date e"
  by (simp add: parse_date_def fun_eq_iff cong: if_cong py_val.case_cong)

lemma finish_asset_validate_url:
  "finish_asset (e\<lparr>validate_url := v\<rparr>) f d a u = finish_asset e f d a u"
  by (simp add: finish_asset_def resolve_youtube_validate_url resolve_duration_validate_url
      parse_date_validate_url)

lemma prepare_accepted_validate_url:
  "prepare_accepted (e\<lparr>validate_url := v\<rparr>) st d u = prepare_accepted e st d u"
  by (simp add: prepare_accepted_def assign_id_validate_url finish_asset_validate_url
      cong: sum.case_cong prod.case_cong)

lemma prepare_asset_local:
  assumes "truthy (get d ''name'')" and "truthy (get d ''mimetype'')"
    and "get d ''uri'' = PStr u" and "u \<noteq> []" and "startswith u ''/''"
  shows "prepare_asset e st (PDict d)
           = (if isfile (cwd e) (fs st) u then prepare_accepted e st d u
              else (Inl (Exception ''Invalid file path. Failed to add asset.''), st))"
  using assms by (simp add: prepare_asset_def check_uri_def)

lemma prepare_asset_remote:
  assumes "truthy (get d ''name'')" and "truthy (get d ''mimetype'')"
    and "get d ''uri'' = PStr u" and "u \<noteq> []" and "\<not> startswith u ''/''"
  shows "prepare_asset e st (PDict d)
           = (if validate_url e u then prepare_accepted e st d u
              else (Inl (Exception ''Invalid URL. Failed to add asset.''), st))"
  using assms by (simp add: prepare_asset_def check_uri_def)

lemma prepare_asset_validate_url:
  assumes "truthy (get d ''name'')" and "truthy (get d ''mimetype'')"
    and "get d ''uri'' = PStr u" and "u \<noteq> []" and "startswith u ''/''"
  shows "prepare_asset (e\<lparr>validate_url := v\<rparr>) st (PDict d) = prepare_asset e st (PDict d)"
  by (simp add: prepare_asset_local [OF assms] prepare_accepted_validate_url)

lemma prepare_asset_bad_path:
  assumes "truthy (get d ''name'')" and "truthy (get d ''mimetype'')"
    and "get d ''uri'' = PStr u" and "u \<noteq> []"
    and "startswith u ''/''" and "\<not> isfile (cwd e) (fs st) u"
  shows "prepare_asset e st (PDict d)
           = (Inl (Exception ''Invalid file path. Failed to add asset.''), st)"
  using assms by (simp add: prepare_asset_def check_uri_def)

lemma prepare_asset_bad_url:
  assumes "truthy (get d ''name'')" and "truthy (get d ''mimetype'')"
    and "get d ''uri'' = PStr u" and "u \<noteq> []"
    and "\<not> startswith u ''/''" and "\<not> validate_url e u"
  shows "prepare_asset e st (PDict d)
           = (Inl (Exception ''Invalid URL. Failed to add asset.''), st)"
  using assms by (simp add: prepare_asset_def check_uri_def)

text \<open>
  C10. Take a request with a name, a mimetype and a non-empty string \<open>u\<close> as uri. If \<open>u\<close>
  begins with "/" it is taken as a local path: it is accepted, and handled by lines
  200-231, exactly when it names an existing file, refused with "Invalid file path"
  otherwise, and \<^verbatim>\<open>validate_url\<close> has no say in the outcome. If \<open>u\<close> does not begin with
  "/" it is taken as a URL, a relative path included: it is accepted exactly when
  \<^verbatim>\<open>validate_url\<close> accepts it, refused with "Invalid URL" otherwise, and whether a file
  of that name exists is not asked.
\<close>

theorem prepare_asset_uri_classification:
  assumes "truthy (get d ''name'')" and "truthy (get d ''mimetype'')"
    and "get d ''uri'' = PStr u" and "u \<noteq> []"
  shows "(startswith u ''/'' \<longrightarrow>
            prepare_asset e st (PDict d)
              = (if isfile (cwd e) (fs st) u then prepare_accepted e st d u
                 else (Inl (Exception ''Invalid file path. Failed to add asset.''), st))
          \<and> (\<forall>v. prepare_asset (e\<lparr>validate_url := v\<rparr>) st (PDict d)
                   = prepare_asset e st (PDict d)))
       \<and> (\<not> startswith u ''/'' \<longrightarrow>
            prepare_asset e st (PDict d)
              = (if validate_url e u then prepare_accepted e st d u
                 else (Inl (Exception ''Invalid URL. Failed to add asset.''), st)))"
proof (intro conjI impI allI)
  assume "startswith u ''/''"
  with assms show "prepare_asset e st (PDict d)
      = (if isfile (cwd e) (fs st) u then prepare_accepted e st d u
         else (Inl (Exception ''Invalid file path. Failed to add asset.''), st))"
    by (rule prepare_asset_local)
next
  fix v
  assume "startswith u ''/''"
  with assms show "prepare_asset (e\<lparr>validate_url := v\<rparr>) st (PDict d)
      = prepare_asset e st (PDict d)"
    by (rule prepare_asset_validate_url)
next
  assume "\<not> startswith u ''/''"
  with assms show "prepare_asset e st (PDict d)
      = (if validate_url e u then prepare_accepted e st d u
         else (Inl (Exception ''Invalid URL. Failed to add asset.''), st))"
    by (rule prepare_asset_remote)
qed

lemma website_accepted:
  "\<exists>a. prepare_accepted example_env empty_state website_request ''http://example.com''
          = (Inr a, empty_state)"
  by (simp add: eval_defs website_request_def env_fields empty_state_def)

lemma upload_accepted:
  "\<exists>a st'. prepare_accepted example_env upload_state upload_request ''/tmp/upload/photo.png''
          = (Inr a, st')"
  by (simp add: eval_defs upload_request_def uuid_example env_fields state_defs)

text \<open>
  A relative path that names an existing file is refused as a URL; a path from the root
  that names no file is refused; a URL that names no file is accepted; a path from the
  root that names a file is accepted.
\<close>

theorem prepare_asset_uri_classification_witness:
  "isfile (cwd example_env) (fs upload_state) ''media/clip.mp4''
   \<and> \<not> startswith ''media/clip.mp4'' ''/''
   \<and> prepare_asset example_env upload_state (PDict relative_request)
       = (Inl (Exception ''Invalid URL. Failed to add asset.''), upload_state)
   \<and> startswith ''/tmp/upload/clip.mp4'' ''/''
   \<and> prepare_asset example_env upload_state (PDict missing_file_request)
       = (Inl (Exception ''Invalid file path. Failed to add asset.''), upload_state)
   \<and> \<not> isfile (cwd example_env) (fs empty_state) ''http://example.com''
   \<and> (\<exists>a. prepare_asset example_env empty_state (PDict website_request)
              = (Inr a, empty_state))
   \<and> isfile (cwd example_env) (fs upload_state) ''/tmp/upload/photo.png''
   \<and> (\<exists>a st'. prepare_asset example_env upload_state (PDict upload_request) = (Inr a, st'))"
proof -
  have r: "truthy (get relative_request ''name'')" "truthy (get relative_request ''mimetype'')"
    "get relative_request ''uri'' = PStr ''media/clip.mp4''" "''media/clip.mp4'' \<noteq> []"
    by (simp_all add: get_def relative_request_def strip_def py_isspace_def)
  have m: "truthy (get missing_file_request ''name'')"
    "truthy (get missing_file_request ''mimetype'')"
    "get missing_file_request ''uri'' = PStr ''/tmp/upload/clip.mp4''"
    "''/tmp/upload/clip.mp4'' \<noteq> []"
    by (simp_all add: get_def missing_file_request_def strip_def py_isspace_def)
  have w: "truthy (get website_request ''name'')" "truthy (get website_request ''mimetype'')"
    "get website_request ''uri'' = PStr ''http://example.com''" "''http://example.com'' \<noteq> []"
    by (simp_all add: get_def website_request_def strip_def py_isspace_def)
  have p: "truthy (get upload_request ''name'')" "truthy (get upload_request ''mimetype'')"
    "get upload_request ''uri'' = PStr ''/tmp/upload/photo.png''"
    "''/tmp/upload/photo.png'' \<noteq> []"
    by (simp_all add: get_def upload_request_def strip_def py_isspace_def)
  have f: "isfile (cwd example_env) (fs upload_state) ''media/clip.mp4''"
    "\<not> isfile (cwd example_env) (fs upload_state) ''/tmp/upload/clip.mp4''"
    "\<not> isfile (cwd example_env) (fs empty_state) ''http://example.com''"
    "isfile (cwd example_env) (fs upload_state) ''/tmp/upload/photo.png''"
    by (simp_all add: isfile_def resolve_def components_def startswith_def state_defs env_fields)
  have s: "\<not> startswith ''media/clip.mp4'' ''/''" "startswith ''/tmp/upload/clip.mp4'' ''/''"
    "\<not> validate_url example_env ''media/clip.mp4''"
    "\<not> startswith ''http://example.com'' ''/''" "validate_url example_env ''http://example.com''"
    "startswith ''/tmp/upload/photo.png'' ''/''"
    by (simp_all add: startswith_def env_fields)
  note c = prepare_asset_uri_classification
  from c [OF r, where e = example_env and st = upload_state] f s
  have 1: "prepare_asset example_env upload_state (PDict relative_request)
       = (Inl (Exception ''Invalid URL. Failed to add asset.''), upload_state)" by simp
  from c [OF m, where e = example_env and st = upload_state] f s
  have 2: "prepare_asset example_env upload_state (PDict missing_file_request)
       = (Inl (Exception ''Invalid file path. Failed to add asset.''), upload_state)" by simp
  from c [OF w, where e = example_env and st = empty_state] f s website_accepted
  have 3: "\<exists>a. prepare_asset example_env empty_state (PDict website_request)
              = (Inr a, empty_state)" by simp
  from c [OF p, where e = example_env and st = upload_state] f s upload_accepted
  have 4: "\<exists>a st'. prepare_asset example_env upload_state (PDict upload_request) = (Inr a, st')"
    by simp
  from 1 2 3 4 f s show ?thesis by simp
qed

section \<open>Properties: the duration of a video\<close>

lemma resolve_youtube_video:
  assumes "resolve_youtube e a u = Inr (a1, u1)" and "a ''mimetype'' = Some m"
    and "py_in ''video'' m = Inr True \<or> py_in ''youtube_asset'' m = Inr True"
  shows "\<exists>m'. a1 ''mimetype'' = Some m' \<and> py_in ''video'' m' = Inr True"
  using assms unfolding resolve_youtube_Inr by (auto simp: startswith_def)

lemma resolve_duration_video:
  assumes "resolve_duration e f d a u = Inr a2" and "a ''mimetype'' = Some m"
    and "py_in ''video'' m = Inr True"
  shows "py_eq_str (get d ''duration'') ''N/A'' \<or> (\<exists>n. py_int (get d ''duration'') = Inr n)"
    and "py_eq_str (get d ''duration'') ''N/A'' \<or> py_int (get d ''duration'') = Inr 0
         \<Longrightarrow> \<exists>t. get_video_duration e f u = Inr t
               \<and> a2 = a(''duration'' \<mapsto> PInt (trunc_towards_zero (total_seconds e t)))"
  using assms
  by (auto simp: resolve_duration_def probe_duration_def bind_Inr split: if_splits)

lemma trunc_towards_zero_floor: "0 \<le> r \<Longrightarrow> trunc_towards_zero r = \<lfloor>r\<rfloor>"
  by (simp add: trunc_towards_zero_def)

lemma floor_example: "\<lfloor>25 / 2 :: rat\<rfloor> = 12"
  by (rule floor_unique) simp_all

lemma video_prepared:
  "\<exists>a st'. prepare_asset example_env upload_state (PDict (video_request (PStr ''N/A'')))
              = (Inr a, st')
     \<and> a ''uri'' = Some (PStr ''/home/pi/screenly_assets/0123456789ab4def8123456789abcdef'')
     \<and> fs st' ''/home/pi/screenly_assets/0123456789ab4def8123456789abcdef''
           = Some (File ''MPEG'')"
  by (simp add: eval_defs video_request_def uuid_example env_fields state_defs)

text \<open>
  C5, as the code has it. Take a request that \<^verbatim>\<open>prepare_asset\<close> accepts and whose
  mimetype is a video (it contains "video", or it is a YouTube reference, which the
  function turns into "video"). If the caller's duration is the string "N/A" or
  \<^verbatim>\<open>int()\<close> turns it into zero, the stored duration is the probed duration of the file at
  the stored uri, in seconds as \<^verbatim>\<open>total_seconds()\<close> gives them, converted by \<^verbatim>\<open>int()\<close>:
  truncated, which for seconds that are not negative is rounding down. And an accepted
  request of this kind has a duration that is "N/A" or that \<^verbatim>\<open>int()\<close> accepts: a video
  request with no duration is refused.
\<close>

theorem prepare_asset_video_duration:
  assumes "prepare_asset e st (PDict d) = (Inr a, st')"
    and "py_in ''video'' (get d ''mimetype'') = Inr True
         \<or> py_in ''youtube_asset'' (get d ''mimetype'') = Inr True"
  shows "(py_eq_str (get d ''duration'') ''N/A'' \<or> py_int (get d ''duration'') = Inr 0 \<longrightarrow>
           (\<exists>u t. a ''uri'' = Some (PStr u) \<and> get_video_duration e (fs st') u = Inr t
              \<and> a ''duration'' = Some (PInt (trunc_towards_zero (total_seconds e t)))
              \<and> (0 \<le> total_seconds e t \<longrightarrow>
                    trunc_towards_zero (total_seconds e t) = \<lfloor>total_seconds e t\<rfloor>)))
       \<and> (py_eq_str (get d ''duration'') ''N/A'' \<or> (\<exists>n. py_int (get d ''duration'') = Inr n))"
proof -
  from assms(1) obtain u asset_id u1 where
    fin: "finish_asset e (fs st') d ((initial_asset d)(''asset_id'' \<mapsto> asset_id)) u1 = Inr a"
    unfolding prepare_asset_Inr prepare_accepted_Inr by blast
  from fin obtain a1 u2 a2 sd ed where
    yt: "resolve_youtube e ((initial_asset d)(''asset_id'' \<mapsto> asset_id)) u1 = Inr (a1, u2)" and
    dur: "resolve_duration e (fs st') d (a1(''uri'' \<mapsto> PStr u2)) u2 = Inr a2" and
    a: "a = a2(''start_date'' \<mapsto> sd, ''end_date'' \<mapsto> ed)"
    unfolding finish_asset_Inr by blast
  from resolve_youtube_video [OF yt initial_asset_mimetype assms(2)] obtain m' where
    m': "(a1(''uri'' \<mapsto> PStr u2)) ''mimetype'' = Some m'" "py_in ''video'' m' = Inr True"
    by auto
  note rd = resolve_duration_video [OF dur m']
  have uri: "a ''uri'' = Some (PStr u2)"
    using resolve_duration_other [OF dur, of "''uri''"] by (simp add: a)
  have probe: "\<exists>t. get_video_duration e (fs st') u2 = Inr t
                 \<and> a ''duration'' = Some (PInt (trunc_towards_zero (total_seconds e t)))
                 \<and> (0 \<le> total_seconds e t \<longrightarrow>
                       trunc_towards_zero (total_seconds e t) = \<lfloor>total_seconds e t\<rfloor>)"
    if "py_eq_str (get d ''duration'') ''N/A'' \<or> py_int (get d ''duration'') = Inr 0"
  proof -
    from rd(2) [OF that] obtain t where
      t: "get_video_duration e (fs st') u2 = Inr t"
         "a2 = (a1(''uri'' \<mapsto> PStr u2))(''duration'' \<mapsto> PInt (trunc_towards_zero (total_seconds e t)))"
      by blast
    have "a ''duration'' = Some (PInt (trunc_towards_zero (total_seconds e t)))"
      by (simp add: a t(2))
    with t(1) trunc_towards_zero_floor [of "total_seconds e t"] show ?thesis by blast
  qed
  from probe uri rd(1) show ?thesis by blast
qed

theorem prepare_asset_video_duration_witness:
  "\<exists>a st'. prepare_asset example_env upload_state (PDict (video_request (PStr ''N/A'')))
              = (Inr a, st')
     \<and> py_in ''video'' (get (video_request (PStr ''N/A'')) ''mimetype'') = Inr True
     \<and> py_eq_str (get (video_request (PStr ''N/A'')) ''duration'') ''N/A''
     \<and> a ''uri'' = Some (PStr ''/home/pi/screenly_assets/0123456789ab4def8123456789abcdef'')
     \<and> get_video_duration example_env (fs st')
           ''/home/pi/screenly_assets/0123456789ab4def8123456789abcdef'' = Inr 12500000
     \<and> a ''duration'' = Some (PInt 12)"
proof -
  let ?d = "video_request (PStr ''N/A'')"
  from video_prepared obtain a st' where
    h: "prepare_asset example_env upload_state (PDict ?d) = (Inr a, st')" and
    uri: "a ''uri'' = Some (PStr ''/home/pi/screenly_assets/0123456789ab4def8123456789abcdef'')" and
    moved: "fs st' ''/home/pi/screenly_assets/0123456789ab4def8123456789abcdef''
              = Some (File ''MPEG'')"
    by blast
  have g: "get ?d ''mimetype'' = PStr ''video''" "get ?d ''duration'' = PStr ''N/A''"
    by (simp_all add: get_def video_request_def strip_def py_isspace_def)
  have v: "py_in ''video'' (get ?d ''mimetype'') = Inr True
           \<or> py_in ''youtube_asset'' (get ?d ''mimetype'') = Inr True"
    by (simp add: g startswith_def)
  have probe: "get_video_duration example_env (fs st')
       ''/home/pi/screenly_assets/0123456789ab4def8123456789abcdef'' = Inr 12500000"
    by (simp add: env_fields isfile_def moved resolve_def components_def startswith_def)
  from prepare_asset_video_duration [OF h v] uri probe
  have "a ''duration'' = Some (PInt 12)"
    by (auto simp: g env_fields trunc_towards_zero_def floor_example)
  with h uri probe show ?thesis by (simp add: g startswith_def)
qed

text \<open>
  C5 as stated fails. A video request with no duration is refused with \<^verbatim>\<open>ValueError\<close>,
  not probed; with duration "30" it is accepted and the record gets no duration at all,
  so the caller's 30 is not stored; with duration "-5" it is accepted, not probed, and
  again no duration is stored.
\<close>

theorem prepare_asset_video_duration_counterexample:
  "py_in ''video'' (get video_request_no_duration ''mimetype'') = Inr True
   \<and> get video_request_no_duration ''duration'' = PStr []
   \<and> fst (prepare_asset example_env upload_state (PDict video_request_no_duration))
       = Inl ValueError
   \<and> py_int (get (video_request (PStr ''30'')) ''duration'') = Inr 30
   \<and> (\<exists>a st'. prepare_asset example_env upload_state (PDict (video_request (PStr ''30'')))
                 = (Inr a, st') \<and> a ''duration'' = None)
   \<and> py_int (get (video_request (PStr ''-5'')) ''duration'') = Inr (- 5)
   \<and> (\<exists>a st'. prepare_asset example_env upload_state (PDict (video_request (PStr ''-5'')))
                 = (Inr a, st') \<and> a ''duration'' = None)"
  by (simp add: eval_defs video_request_def video_request_no_duration_def uuid_example
      env_fields state_defs)

section \<open>Properties: when creation fails\<close>

lemma assign_id_db: "assign_id e st i u = (r, st1) \<Longrightarrow> db st1 = db st"
  by (auto simp: assign_id_def uuid4_def split: if_splits sum.splits)

lemma prepare_accepted_db: "prepare_accepted e st d u = (r, st') \<Longrightarrow> db st' = db st"
  by (auto simp: prepare_accepted_def split: prod.splits sum.splits dest: assign_id_db)

lemma prepare_asset_db: "prepare_asset e st data = (r, st') \<Longrightarrow> db st' = db st"
  by (cases data)
    (auto simp: prepare_asset_def split: sum.splits if_splits dest: prepare_accepted_db)

lemma prepare_asset_not_enough:
  "\<not> (truthy (get d ''name'') \<and> truthy (get d ''uri'') \<and> truthy (get d ''mimetype''))
   \<Longrightarrow> prepare_asset e st (PDict d) = (Inl (Exception
     ''Not enough information provided. Please specify 'name', 'uri', and 'mimetype'.''), st)"
  by (simp add: prepare_asset_def)

lemma Assets_post_prepare_fails:
  "prepare_asset e st data = (Inl err, st') \<Longrightarrow> Assets_post e st data = (Inl err, st')"
  by (simp add: Assets_post_def)

lemma assign_id_remote:
  "assign_id e st i u = (Inr (asset_id, u1), st1) \<Longrightarrow> \<not> startswith u ''/'' \<Longrightarrow> u1 = u"
  by (auto simp: assign_id_def uuid4_def split: if_splits)

lemma prepare_asset_youtube_decided:
  assumes "prepare_asset e st (PDict d) = (Inr a, st')"
  shows "\<exists>b. py_in ''youtube_asset'' (get d ''mimetype'') = Inr b"
proof -
  from assms obtain asset_id u1 where
    fin: "finish_asset e (fs st') d ((initial_asset d)(''asset_id'' \<mapsto> asset_id)) u1 = Inr a"
    unfolding prepare_asset_Inr prepare_accepted_Inr by blast
  then obtain a1 u2 where
    "resolve_youtube e ((initial_asset d)(''asset_id'' \<mapsto> asset_id)) u1 = Inr (a1, u2)"
    unfolding finish_asset_Inr by blast
  then show ?thesis
    unfolding resolve_youtube_Inr by (auto simp: initial_asset_def)
qed

lemma prepare_asset_remote_uri:
  assumes "prepare_asset e st (PDict d) = (Inr a, st')" and "get d ''uri'' = PStr u"
    and "\<not> startswith u ''/''" and "py_in ''youtube_asset'' (get d ''mimetype'') = Inr False"
  shows "a ''uri'' = Some (PStr u)"
proof -
  from assms(1) obtain u0 asset_id u1 where
    chk: "check_uri e (fs st) (get d ''uri'') = Inr u0" and
    asg: "assign_id e st (get d ''asset_id'') u0 = (Inr (asset_id, u1), st')" and
    fin: "finish_asset e (fs st') d ((initial_asset d)(''asset_id'' \<mapsto> asset_id)) u1 = Inr a"
    unfolding prepare_asset_Inr prepare_accepted_Inr by blast
  from fin obtain a1 u2 a2 sd ed where
    yt: "resolve_youtube e ((initial_asset d)(''asset_id'' \<mapsto> asset_id)) u1 = Inr (a1, u2)" and
    dur: "resolve_duration e (fs st') d (a1(''uri'' \<mapsto> PStr u2)) u2 = Inr a2" and
    a: "a = a2(''start_date'' \<mapsto> sd, ''end_date'' \<mapsto> ed)"
    unfolding finish_asset_Inr by blast
  from chk assms(2) have "u0 = u" by (simp add: check_uri_Inr)
  with assign_id_remote [OF asg] assms(3) have "u1 = u" by simp
  moreover from resolve_youtube_not_youtube [OF yt initial_asset_mimetype assms(4)]
  have "u2 = u1" by simp
  moreover from resolve_duration_other [OF dur, of "''uri''"]
  have "a ''uri'' = Some (PStr u2)" by (simp add: a)
  ultimately show ?thesis by simp
qed

lemma Assets_post_url_fails:
  "prepare_asset e st data = (Inr a, st1) \<Longrightarrow> a ''uri'' = Some (PStr u) \<Longrightarrow> url_fails e u
   \<Longrightarrow> Assets_post e st data
        = (Inl (Exception ''Could not retrieve file. Check the asset URL.''), st1)"
  by (simp add: Assets_post_def)

lemma Assets_post_Inr:
  "Assets_post e st data = (Inr (a, code), st') \<longleftrightarrow>
     (\<exists>st1 u. prepare_asset e st data = (Inr a, st1) \<and> a ''uri'' = Some (PStr u)
        \<and> \<not> url_fails e u \<and> code = 201 \<and> st' = st1\<lparr>db := db st1 @ [a]\<rparr>)"
  by (auto simp: Assets_post_def assets_helper_create_def
      split: sum.splits prod.splits option.splits py_val.splits)

lemma Assets_post_Inl:
  assumes "Assets_post e st data = (Inl err, st')"
  shows "db st' = db st"
proof (cases "prepare_asset e st data")
  case (Pair r st1)
  then have d: "db st1 = db st" by (rule prepare_asset_db)
  from assms Pair d show ?thesis
    by (auto simp: Assets_post_def assets_helper_create_def
        split: sum.splits prod.splits option.splits py_val.splits if_splits)
qed

lemma Assets_post_liveness:
  assumes "get d ''uri'' = PStr u" and "\<not> startswith u ''/''"
    and "py_in ''youtube_asset'' (get d ''mimetype'') \<noteq> Inr True" and "url_fails e u"
  shows "\<exists>err st'. Assets_post e st (PDict d) = (Inl err, st') \<and> db st' = db st"
proof (cases "prepare_asset e st (PDict d)")
  case (Pair r st1)
  note d = prepare_asset_db [OF Pair]
  show ?thesis
  proof (cases r)
    case (Inl err)
    with Pair have "Assets_post e st (PDict d) = (Inl err, st1)"
      by (simp add: Assets_post_prepare_fails)
    with d show ?thesis by blast
  next
    case (Inr a)
    with Pair have p: "prepare_asset e st (PDict d) = (Inr a, st1)" by simp
    from prepare_asset_youtube_decided [OF p] assms(3)
    have "py_in ''youtube_asset'' (get d ''mimetype'') = Inr False" by auto
    from prepare_asset_remote_uri [OF p assms(1,2) this]
    have "a ''uri'' = Some (PStr u)" .
    from Assets_post_url_fails [OF p this assms(4)] d show ?thesis by blast
  qed
qed

text \<open>
  C6, as the code has it. \<^verbatim>\<open>Assets.post\<close> answers with an error, and the state is as
  before, when name, uri or mimetype is missing or blank, when the uri is a local path
  that is no existing file, and when it is another string that \<^verbatim>\<open>validate_url\<close>
  rejects. It answers with an error, and the catalog is as before, when the uri is not a
  local path, the mimetype is no YouTube reference and \<^verbatim>\<open>url_fails\<close> holds of the uri:
  the probe is applied to the uri of the prepared record, which is then the uri of the
  request (for a YouTube reference it is the place of the download). Every error leaves
  the catalog as it was, and every success has status 201 and adds the returned record
  to the catalog.
\<close>

theorem Assets_post_failures:
  "(\<not> (truthy (get d ''name'') \<and> truthy (get d ''uri'') \<and> truthy (get d ''mimetype'')) \<longrightarrow>
      Assets_post e st (PDict d) = (Inl (Exception
        ''Not enough information provided. Please specify 'name', 'uri', and 'mimetype'.''), st))
   \<and> (\<forall>u. truthy (get d ''name'') \<and> truthy (get d ''mimetype'') \<and> get d ''uri'' = PStr u
          \<and> u \<noteq> [] \<and> startswith u ''/'' \<and> \<not> isfile (cwd e) (fs st) u \<longrightarrow>
        Assets_post e st (PDict d)
          = (Inl (Exception ''Invalid file path. Failed to add asset.''), st))
   \<and> (\<forall>u. truthy (get d ''name'') \<and> truthy (get d ''mimetype'') \<and> get d ''uri'' = PStr u
          \<and> u \<noteq> [] \<and> \<not> startswith u ''/'' \<and> \<not> validate_url e u \<longrightarrow>
        Assets_post e st (PDict d)
          = (Inl (Exception ''Invalid URL. Failed to add asset.''), st))
   \<and> (\<forall>u. get d ''uri'' = PStr u \<and> \<not> startswith u ''/''
          \<and> py_in ''youtube_asset'' (get d ''mimetype'') \<noteq> Inr True \<and> url_fails e u \<longrightarrow>
        (\<exists>err st'. Assets_post e st (PDict d) = (Inl err, st') \<and> db st' = db st))
   \<and> (\<forall>a st1 u. prepare_asset e st (PDict d) = (Inr a, st1) \<and> a ''uri'' = Some (PStr u)
          \<and> url_fails e u \<longrightarrow>
        Assets_post e st (PDict d)
          = (Inl (Exception ''Could not retrieve file. Check the asset URL.''), st1)
        \<and> db st1 = db st)
   \<and> (\<forall>a st1 u. prepare_asset e st (PDict d) = (Inr a, st1) \<and> get d ''uri'' = PStr u
          \<and> \<not> startswith u ''/''
          \<and> py_in ''youtube_asset'' (get d ''mimetype'') = Inr False \<longrightarrow>
        a ''uri'' = Some (PStr u))
   \<and> (\<forall>err st'. Assets_post e st (PDict d) = (Inl err, st') \<longrightarrow> db st' = db st)
   \<and> (\<forall>a code st'. Assets_post e st (PDict d) = (Inr (a, code), st') \<longrightarrow>
        code = 201 \<and> db st' = db st @ [a])"
proof -
  have k1: "\<not> (truthy (get d ''name'') \<and> truthy (get d ''uri'') \<and> truthy (get d ''mimetype'')) \<longrightarrow>
      Assets_post e st (PDict d) = (Inl (Exception
        ''Not enough information provided. Please specify 'name', 'uri', and 'mimetype'.''), st)"
  proof
    assume "\<not> (truthy (get d ''name'') \<and> truthy (get d ''uri'') \<and> truthy (get d ''mimetype''))"
    then show "Assets_post e st (PDict d) = (Inl (Exception
        ''Not enough information provided. Please specify 'name', 'uri', and 'mimetype'.''), st)"
      by (intro Assets_post_prepare_fails prepare_asset_not_enough)
  qed
  have k2: "\<forall>u. truthy (get d ''name'') \<and> truthy (get d ''mimetype'') \<and> get d ''uri'' = PStr u
          \<and> u \<noteq> [] \<and> startswith u ''/'' \<and> \<not> isfile (cwd e) (fs st) u \<longrightarrow>
        Assets_post e st (PDict d)
          = (Inl (Exception ''Invalid file path. Failed to add asset.''), st)"
  proof (intro allI impI, elim conjE)
    fix u
    assume "truthy (get d ''name'')" "truthy (get d ''mimetype'')" "get d ''uri'' = PStr u"
      "u \<noteq> []" "startswith u ''/''" "\<not> isfile (cwd e) (fs st) u"
    then show "Assets_post e st (PDict d)
          = (Inl (Exception ''Invalid file path. Failed to add asset.''), st)"
      by (intro Assets_post_prepare_fails prepare_asset_bad_path)
  qed
  have k3: "\<forall>u. truthy (get d ''name'') \<and> truthy (get d ''mimetype'') \<and> get d ''uri'' = PStr u
          \<and> u \<noteq> [] \<and> \<not> startswith u ''/'' \<and> \<not> validate_url e u \<longrightarrow>
        Assets_post e st (PDict d)
          = (Inl (Exception ''Invalid URL. Failed to add asset.''), st)"
  proof (intro allI impI, elim conjE)
    fix u
    assume "truthy (get d ''name'')" "truthy (get d ''mimetype'')" "get d ''uri'' = PStr u"
      "u \<noteq> []" "\<not> startswith u ''/''" "\<not> validate_url e u"
    then show "Assets_post e st (PDict d)
          = (Inl (Exception ''Invalid URL. Failed to add asset.''), st)"
      by (intro Assets_post_prepare_fails prepare_asset_bad_url)
  qed
  have kl: "\<forall>u. get d ''uri'' = PStr u \<and> \<not> startswith u ''/''
          \<and> py_in ''youtube_asset'' (get d ''mimetype'') \<noteq> Inr True \<and> url_fails e u \<longrightarrow>
        (\<exists>err st'. Assets_post e st (PDict d) = (Inl err, st') \<and> db st' = db st)"
  proof (intro allI impI, elim conjE)
    fix u
    assume "get d ''uri'' = PStr u" "\<not> startswith u ''/''"
      "py_in ''youtube_asset'' (get d ''mimetype'') \<noteq> Inr True" "url_fails e u"
    then show "\<exists>err st'. Assets_post e st (PDict d) = (Inl err, st') \<and> db st' = db st"
      by (rule Assets_post_liveness)
  qed
  have k4: "\<forall>a st1 u. prepare_asset e st (PDict d) = (Inr a, st1) \<and> a ''uri'' = Some (PStr u)
          \<and> url_fails e u \<longrightarrow>
        Assets_post e st (PDict d)
          = (Inl (Exception ''Could not retrieve file. Check the asset URL.''), st1)
        \<and> db st1 = db st"
  proof (intro allI impI, elim conjE)
    fix a st1 u
    assume p: "prepare_asset e st (PDict d) = (Inr a, st1)" and "a ''uri'' = Some (PStr u)"
      and "url_fails e u"
    then show "Assets_post e st (PDict d)
          = (Inl (Exception ''Could not retrieve file. Check the asset URL.''), st1)
        \<and> db st1 = db st"
      by (intro conjI Assets_post_url_fails prepare_asset_db [OF p])
  qed
  have k5: "\<forall>a st1 u. prepare_asset e st (PDict d) = (Inr a, st1) \<and> get d ''uri'' = PStr u
          \<and> \<not> startswith u ''/''
          \<and> py_in ''youtube_asset'' (get d ''mimetype'') = Inr False \<longrightarrow>
        a ''uri'' = Some (PStr u)"
  proof (intro allI impI, elim conjE)
    fix a st1 u
    assume "prepare_asset e st (PDict d) = (Inr a, st1)" "get d ''uri'' = PStr u"
      "\<not> startswith u ''/''" "py_in ''youtube_asset'' (get d ''mimetype'') = Inr False"
    then show "a ''uri'' = Some (PStr u)" by (rule prepare_asset_remote_uri)
  qed
  have k6: "\<forall>err st'. Assets_post e st (PDict d) = (Inl err, st') \<longrightarrow> db st' = db st"
  proof (intro allI impI)
    fix err st'
    assume "Assets_post e st (PDict d) = (Inl err, st')"
    then show "db st' = db st" by (rule Assets_post_Inl)
  qed
  have k7: "\<forall>a code st'. Assets_post e st (PDict d) = (Inr (a, code), st') \<longrightarrow>
        code = 201 \<and> db st' = db st @ [a]"
  proof (intro allI impI)
    fix a code st'
    assume "Assets_post e st (PDict d) = (Inr (a, code), st')"
    then obtain st1 where
      p: "prepare_asset e st (PDict d) = (Inr a, st1)" and c: "code = 201"
      and s: "st' = st1\<lparr>db := db st1 @ [a]\<rparr>"
      unfolding Assets_post_Inr by blast
    from prepare_asset_db [OF p] c s show "code = 201 \<and> db st' = db st @ [a]" by simp
  qed
  show ?thesis by (intro conjI k1 k2 k3 kl k4 k5 k6 k7)
qed

lemma website_created:
  "\<exists>a st'. Assets_post example_env empty_state (PDict website_request) = (Inr (a, 201), st')"
  by (simp add: Assets_post_def assets_helper_create_def eval_defs website_request_def
      env_fields state_defs)

text \<open>
  A request with a blank name and one whose URL fails the liveness probe are refused and
  the catalog keeps its three assets; a sound request is stored.
\<close>

theorem Assets_post_failures_witness:
  "\<not> truthy (get nameless_request ''name'')
   \<and> Assets_post example_env stored_state (PDict nameless_request) = (Inl (Exception
        ''Not enough information provided. Please specify 'name', 'uri', and 'mimetype'.''),
        stored_state)
   \<and> get down_request ''uri'' = PStr ''http://down.example.com/status''
   \<and> url_fails example_env ''http://down.example.com/status''
   \<and> (\<exists>err st'. Assets_post example_env stored_state (PDict down_request) = (Inl err, st')
         \<and> db st' = [local_asset, web_asset, ghost_asset])
   \<and> (\<exists>a st'. Assets_post example_env empty_state (PDict website_request) = (Inr (a, 201), st')
         \<and> db st' = [a])"
proof -
  have n: "\<not> truthy (get nameless_request ''name'')"
    by (simp add: get_def nameless_request_def strip_def py_isspace_def)
  have g: "get down_request ''uri'' = PStr ''http://down.example.com/status''"
    "get down_request ''mimetype'' = PStr ''webpage''"
    by (simp_all add: get_def down_request_def strip_def py_isspace_def)
  have l: "\<not> startswith ''http://down.example.com/status'' ''/''"
    "py_in ''youtube_asset'' (get down_request ''mimetype'') \<noteq> Inr True"
    "url_fails example_env ''http://down.example.com/status''"
    by (simp_all add: g startswith_def env_fields)
  from website_created obtain a st' where
    h: "Assets_post example_env empty_state (PDict website_request) = (Inr (a, 201), st')"
    by blast
  have e: "db empty_state = []" "db stored_state = [local_asset, web_asset, ghost_asset]"
    by (simp_all add: empty_state_def stored_state_def)
  note missing = Assets_post_failures [of nameless_request example_env stored_state,
      THEN conjunct1, rule_format]
  note probe = Assets_post_failures [of down_request example_env stored_state,
      THEN conjunct2, THEN conjunct2, THEN conjunct2, THEN conjunct1, rule_format]
  note stored = Assets_post_failures [of website_request example_env empty_state,
      THEN conjunct2, THEN conjunct2, THEN conjunct2, THEN conjunct2, THEN conjunct2,
      THEN conjunct2, THEN conjunct2, rule_format]
  have r1: "Assets_post example_env stored_state (PDict nameless_request) = (Inl (Exception
        ''Not enough information provided. Please specify 'name', 'uri', and 'mimetype'.''),
        stored_state)"
    by (rule missing) (simp add: n)
  have r2: "\<exists>err st'. Assets_post example_env stored_state (PDict down_request) = (Inl err, st')
         \<and> db st' = [local_asset, web_asset, ghost_asset]"
    using probe [of "''http://down.example.com/status''"] g(1) l by (simp add: e)
  from stored [OF h] have r3: "db st' = [a]" by (simp add: e)
  from n r1 g(1) l(3) r2 h r3 show ?thesis by blast
qed

text \<open>
  C6 as stated fails in both directions. A web page request with name, uri and mimetype,
  a valid and reachable URL, but no duration meets none of the conditions and is refused
  with \<^verbatim>\<open>ValueError\<close> (line 218: "Crashes if it's not an int. We want that."), after
  an identifier has been drawn for it. A YouTube
  request whose URL fails the liveness probe is created all the same, with status 201:
  the probe of line 302 is applied to the place of the download.
\<close>

theorem Assets_post_failures_counterexample:
  "truthy (get website_request_no_duration ''name'')
   \<and> truthy (get website_request_no_duration ''mimetype'')
   \<and> get website_request_no_duration ''uri'' = PStr ''http://example.com''
   \<and> \<not> startswith ''http://example.com'' ''/''
   \<and> validate_url example_env ''http://example.com''
   \<and> \<not> url_fails example_env ''http://example.com''
   \<and> Assets_post example_env empty_state (PDict website_request_no_duration)
       = (Inl ValueError, empty_state\<lparr>draws := Suc 0\<rparr>)
   \<and> get youtube_request ''uri'' = PStr ''http://down.example.com/watch''
   \<and> validate_url example_env ''http://down.example.com/watch''
   \<and> url_fails example_env ''http://down.example.com/watch''
   \<and> (\<exists>a st'. Assets_post example_env empty_state (PDict youtube_request)
                 = (Inr (a, 201), st') \<and> db st' = [a])"
  by (simp add: Assets_post_def assets_helper_create_def eval_defs
      website_request_no_duration_def youtube_request_def uuid_example env_fields state_defs)

end
